theory Spec2Isabelle
  imports Complex_Main "HOL-Library.Word"
begin

section \<open>Values shared by the adapter\<close>

text \<open>
  JSON values as the adapter passes them around (tool inputs, tool outputs, provider
  options). Numbers are restricted to integers; no theorem below looks inside a number.
\<close>

datatype json =
    JNull
  | JBool bool
  | JNum int
  | JStr string
  | JArr "json list"
  | JObj "(string \<times> json) list"

text \<open>
  A thrown JavaScript exception. \<open>Error msg\<close> is \<^verbatim>\<open>throw new Error(msg)\<close>;
  \<open>SyntaxError\<close> is what \<^verbatim>\<open>JSON.parse\<close> throws; \<open>TypeError\<close> is the call of a method
  the value does not have; \<open>Rejected msg\<close> is a rejected promise of an external service
  (the inference binding, a fetch).
\<close>

datatype error = Error string | SyntaxError | TypeError | Rejected string

text \<open>Rendering of an array index inside a template literal: decimal digits.\<close>

definition digit :: "nat \<Rightarrow> char" where
  "digit d = ''0123456789'' ! d"

function Number_toString :: "nat \<Rightarrow> string" where
  "Number_toString n = (if n < 10 then [digit n] else Number_toString (n div 10) @ [digit (n mod 10)])"
  by pat_completeness auto
termination
  by (relation "measure id") auto

declare Number_toString.simps [simp del]

text \<open>
  \<^verbatim>\<open>Array.prototype.join\<close>: an element that is \<^verbatim>\<open>undefined\<close> (here \<open>None\<close>) is rendered as
  the empty string.
\<close>

fun js_join :: "string \<Rightarrow> string option list \<Rightarrow> string" where
  "js_join sep [] = ''''"
| "js_join sep [x] = (case x of None \<Rightarrow> '''' | Some s \<Rightarrow> s)"
| "js_join sep (x # y # ys) = (case x of None \<Rightarrow> '''' | Some s \<Rightarrow> s) @ sep @ js_join sep (y # ys)"

text \<open>\<^verbatim>\<open>xs.map((x, index) => f(x, index))\<close> and \<^verbatim>\<open>for (const [index, x] of xs.entries())\<close>.\<close>

definition mapIndex :: "('a \<Rightarrow> nat \<Rightarrow> 'b) \<Rightarrow> 'a list \<Rightarrow> 'b list" where
  "mapIndex f xs = map (\<lambda>(x, index). f x index) (zip xs [0..<length xs])"

text \<open>
  \<^verbatim>\<open>JSON.stringify\<close> on the values of \<open>json\<close> whose strings hold no control character
  (quotes and backslashes are escaped, nothing else). The converter takes the serialiser
  as an argument, so its theorems hold for any serialiser; this one is what the closed
  examples run with.
\<close>

fun escapeChar :: "char \<Rightarrow> string" where
  "escapeChar c =
     (if c = CHR 0x22 then [CHR 0x5C, CHR 0x22]
      else if c = CHR 0x5C then [CHR 0x5C, CHR 0x5C]
      else [c])"

fun commaSep :: "string list \<Rightarrow> string" where
  "commaSep [] = ''''"
| "commaSep [x] = x"
| "commaSep (x # y # ys) = x @ '','' @ commaSep (y # ys)"

fun JSON_stringify :: "json \<Rightarrow> string" where
  "JSON_stringify JNull = ''null''"
| "JSON_stringify (JBool b) = (if b then ''true'' else ''false'')"
| "JSON_stringify (JNum i) =
     (if i < 0 then ''-'' @ Number_toString (nat (- i)) else Number_toString (nat i))"
| "JSON_stringify (JStr s) = [CHR 0x22] @ concat (map escapeChar s) @ [CHR 0x22]"
| "JSON_stringify (JArr xs) = ''['' @ commaSep (map JSON_stringify xs) @ '']''"
| "JSON_stringify (JObj kvs) =
     ''{'' @ commaSep (map (\<lambda>(k, v). [CHR 0x22] @ concat (map escapeChar k) @ [CHR 0x22] @ '':'' @ JSON_stringify v) kvs) @ ''}''"

section \<open>Message converter (convert-to-workersai-chat-messages.ts)\<close>

text \<open>
  The canonical prompt. \<open>file_data\<close> is the union \<^verbatim>\<open>Uint8Array | string | URL\<close> of a file
  part's \<^verbatim>\<open>data\<close>. \<open>OtherPart ty\<close> is a part whose \<^verbatim>\<open>type\<close> tag \<open>ty\<close> is none of the known
  ones; \<open>OtherRole r\<close> is a turn whose \<^verbatim>\<open>role\<close> is none of the four known roles.
\<close>

datatype file_data = Bytes "8 word list" | Base64 string | Url string

record tool_result =
  tr_toolCallId :: string
  tr_toolName :: string
  tr_output :: json

datatype part =
    TextPart string
  | ReasoningPart string
  | FilePart file_data string "json option"
  | ToolCallPart string string json
  | ToolResultPart tool_result
  | OtherPart string

datatype turn =
    System string
  | User "part list"
  | Assistant "part list"
  | Tool "tool_result list"
  | OtherRole string

fun part_type :: "part \<Rightarrow> string" where
  "part_type (TextPart t) = ''text''"
| "part_type (ReasoningPart t) = ''reasoning''"
| "part_type (FilePart d mt po) = ''file''"
| "part_type (ToolCallPart i n inp) = ''tool-call''"
| "part_type (ToolResultPart r) = ''tool-result''"
| "part_type (OtherPart ty) = ty"

text \<open>The backend's flat messages (\<^verbatim>\<open>WorkersAIChatPrompt\<close>) and the image side-channel.\<close>

record backend_tool_call =
  fn_arguments :: string
  fn_name :: string
  call_id :: string
  call_type :: string

datatype message =
    SystemMessage string
  | UserMessage string
  | AssistantMessage string "backend_tool_call list option"
  | ToolMessage string string string

record image =
  image :: "8 word list"
  mimeType :: "string option"
  providerOptions :: "json option"

record converted =
  images :: "image list"
  messages :: "message list"

text \<open>
  The callback of \<^verbatim>\<open>content.map\<close> in the user case: the string it returns (\<open>None\<close> for
  \<^verbatim>\<open>undefined\<close>) and the images it pushes.
\<close>

fun userPart :: "part \<Rightarrow> string option \<times> image list" where
  "userPart (TextPart t) = (Some t, [])"
| "userPart (FilePart d mt po) =
     (Some '''',
      case d of
        Bytes b \<Rightarrow> [\<lparr>image = b, mimeType = Some mt, providerOptions = po\<rparr>]
      | Base64 s \<Rightarrow> []
      | Url u \<Rightarrow> [])"
| "userPart p = (None, [])"

text \<open>
  The loop over the parts of an assistant turn, with its two locals \<^verbatim>\<open>text\<close> and
  \<^verbatim>\<open>toolCalls\<close>. \<open>stringify\<close> is \<^verbatim>\<open>JSON.stringify\<close>.
\<close>

fun assistantParts ::
  "(json \<Rightarrow> string) \<Rightarrow> part list \<Rightarrow> string \<Rightarrow> backend_tool_call list
    \<Rightarrow> error + (string \<times> backend_tool_call list)" where
  "assistantParts stringify [] text toolCalls = Inr (text, toolCalls)"
| "assistantParts stringify (TextPart t # ps) text toolCalls =
     assistantParts stringify ps (text @ t) toolCalls"
| "assistantParts stringify (ReasoningPart t # ps) text toolCalls =
     assistantParts stringify ps (text @ t) toolCalls"
| "assistantParts stringify (ToolCallPart i n inp # ps) text toolCalls =
     assistantParts stringify ps
       (stringify (JObj [(''name'', JStr n), (''parameters'', inp)]))
       (toolCalls @
        [\<lparr>fn_arguments = stringify inp, fn_name = n, call_id = i, call_type = ''function''\<rparr>])"
| "assistantParts stringify (p # ps) text toolCalls =
     Inl (Error (''Unsupported part type: '' @ part_type p))"

definition functionsId :: "string \<Rightarrow> nat \<Rightarrow> string" where
  "functionsId name index = ''functions.'' @ name @ '':'' @ Number_toString index"

text \<open>One iteration of the loop over the prompt: the messages and images it pushes.\<close>

fun convertTurn :: "(json \<Rightarrow> string) \<Rightarrow> turn \<Rightarrow> error + (message list \<times> image list)" where
  "convertTurn stringify (System content) = Inr ([SystemMessage content], [])"
| "convertTurn stringify (User content) =
     Inr ([UserMessage (js_join ''\<newline>'' (map (fst \<circ> userPart) content))],
          concat (map (snd \<circ> userPart) content))"
| "convertTurn stringify (Assistant content) =
     (case assistantParts stringify content '''' [] of
        Inl e \<Rightarrow> Inl e
      | Inr (text, toolCalls) \<Rightarrow>
          Inr ([AssistantMessage text
                 (if length toolCalls > 0
                  then Some (mapIndex (\<lambda>tc index.
                         \<lparr>fn_arguments = fn_arguments tc, fn_name = fn_name tc,
                          call_id = functionsId (fn_name tc) index,
                          call_type = ''function''\<rparr>) toolCalls)
                  else None)], []))"
| "convertTurn stringify (Tool content) =
     Inr (mapIndex (\<lambda>toolResponse index.
            ToolMessage (stringify (tr_output toolResponse)) (tr_toolName toolResponse)
              (functionsId (tr_toolName toolResponse) index)) content, [])"
| "convertTurn stringify (OtherRole r) = Inl (Error (''Unsupported role: '' @ r))"

fun convertLoop ::
  "(json \<Rightarrow> string) \<Rightarrow> turn list \<Rightarrow> message list \<Rightarrow> image list \<Rightarrow> error + converted" where
  "convertLoop stringify [] msgs imgs = Inr \<lparr>images = imgs, messages = msgs\<rparr>"
| "convertLoop stringify (t # ts) msgs imgs =
     (case convertTurn stringify t of
        Inl e \<Rightarrow> Inl e
      | Inr (ms, is) \<Rightarrow> convertLoop stringify ts (msgs @ ms) (imgs @ is))"

definition convertToWorkersAIChatMessages :: "(json \<Rightarrow> string) \<Rightarrow> turn list \<Rightarrow> error + converted" where
  "convertToWorkersAIChatMessages stringify prompt = convertLoop stringify prompt [] []"

section \<open>Usage normalizer (map-workersai-usage.ts)\<close>

record backend_usage =
  prompt_tokens :: int
  completion_tokens :: int

record usage =
  outputTokens :: int
  inputTokens :: int
  totalTokens :: int

text \<open>
  The argument is the \<^verbatim>\<open>usage\<close> field of the output (\<open>None\<close> when it is missing or
  \<^verbatim>\<open>null\<close>), which is all the function reads.
\<close>

definition mapWorkersAIUsage :: "backend_usage option \<Rightarrow> usage" where
  "mapWorkersAIUsage output_usage =
     (let u = (case output_usage of
                 None \<Rightarrow> \<lparr>prompt_tokens = 0, completion_tokens = 0\<rparr>
               | Some x \<Rightarrow> x)
      in \<lparr>outputTokens = completion_tokens u,
          inputTokens = prompt_tokens u,
          totalTokens = prompt_tokens u + completion_tokens u\<rparr>)"

section \<open>Canonical stream events\<close>

record tool_call =
  toolCallId :: string
  toolName :: string
  input :: json

datatype warning = UnsupportedSetting string

datatype event =
    StreamStart "warning list"
  | TextStart string
  | TextDelta string string
  | TextEnd string
  | ReasoningStart string
  | ReasoningDelta string string
  | ReasoningEnd string
  | ToolCall tool_call
  | Finish string usage

text \<open>
  How a produced stream ends: closed by \<^verbatim>\<open>controller.close()\<close>, errored by an exception
  in its \<^verbatim>\<open>start\<close>, or left open for ever. A stream is given by the events enqueued and
  its ending; of a stream that errors, a consumer may have read fewer events than were
  enqueued.
\<close>

datatype ending = Closed | Errored error | Pending

text \<open>
  The mutable locals that frame the blocks, in both producers: the two block ids
  (\<open>None\<close> is \<^verbatim>\<open>null\<close>), the number of calls of \<^verbatim>\<open>generateId\<close> made so far, and what
  \<^verbatim>\<open>controller.enqueue\<close> has received. \<^verbatim>\<open>generateId\<close> comes from the \<^verbatim>\<open>ai\<close> package; it is
  taken as the sequence of ids it returns, \<open>generateId k\<close> being the result of call \<open>k\<close>.
\<close>

record framing =
  textId :: "string option"
  reasoningId :: "string option"
  generated :: nat
  queue :: "event list"

text \<open>
  Truthiness of a \<^verbatim>\<open>string | null | undefined\<close>: \<^verbatim>\<open>null\<close>, \<^verbatim>\<open>undefined\<close> and the empty
  string are falsy. It is also the value of \<^verbatim>\<open>s?.length\<close> as a condition.
\<close>

definition truthy :: "string option \<Rightarrow> bool" where
  "truthy x = (case x of None \<Rightarrow> False | Some s \<Rightarrow> s \<noteq> '''')"

definition enqueue :: "event \<Rightarrow> 'a framing_scheme \<Rightarrow> 'a framing_scheme" where
  "enqueue e st = st\<lparr>queue := queue st @ [e]\<rparr>"

text \<open>\<^verbatim>\<open>if (!textId) { textId = generateId(); controller.enqueue({type: "text-start", id: textId}) }\<close>\<close>

definition openText :: "(nat \<Rightarrow> string) \<Rightarrow> 'a framing_scheme \<Rightarrow> 'a framing_scheme" where
  "openText generateId st =
     (if \<not> truthy (textId st)
      then enqueue (TextStart (generateId (generated st)))
             (st\<lparr>textId := Some (generateId (generated st)), generated := Suc (generated st)\<rparr>)
      else st)"

definition openReasoning :: "(nat \<Rightarrow> string) \<Rightarrow> 'a framing_scheme \<Rightarrow> 'a framing_scheme" where
  "openReasoning generateId st =
     (if \<not> truthy (reasoningId st)
      then enqueue (ReasoningStart (generateId (generated st)))
             (st\<lparr>reasoningId := Some (generateId (generated st)), generated := Suc (generated st)\<rparr>)
      else st)"

text \<open>
  The block is opened if need be, then the delta is enqueued with \<^verbatim>\<open>id: textId\<close>. After
  \<open>openText\<close> the id is never \<^verbatim>\<open>null\<close> (lemma \<open>openText_textId\<close>), so the \<open>None\<close> case
  below is never taken.
\<close>

definition textDelta :: "(nat \<Rightarrow> string) \<Rightarrow> string \<Rightarrow> 'a framing_scheme \<Rightarrow> 'a framing_scheme" where
  "textDelta generateId delta st =
     (let st' = openText generateId st
      in case textId st' of
           Some i \<Rightarrow> enqueue (TextDelta i delta) st'
         | None \<Rightarrow> st')"

definition reasoningDelta :: "(nat \<Rightarrow> string) \<Rightarrow> string \<Rightarrow> 'a framing_scheme \<Rightarrow> 'a framing_scheme" where
  "reasoningDelta generateId delta st =
     (let st' = openReasoning generateId st
      in case reasoningId st' of
           Some i \<Rightarrow> enqueue (ReasoningDelta i delta) st'
         | None \<Rightarrow> st')"

text \<open>The closing of the blocks, the same statements in both producers.\<close>

definition closeReasoning :: "'a framing_scheme \<Rightarrow> 'a framing_scheme" where
  "closeReasoning st =
     (case reasoningId st of
        Some i \<Rightarrow> if i \<noteq> '''' then (enqueue (ReasoningEnd i) st)\<lparr>reasoningId := None\<rparr> else st
      | None \<Rightarrow> st)"

definition closeText :: "'a framing_scheme \<Rightarrow> 'a framing_scheme" where
  "closeText st =
     (case textId st of
        Some i \<Rightarrow> if i \<noteq> '''' then (enqueue (TextEnd i) st)\<lparr>textId := None\<rparr> else st
      | None \<Rightarrow> st)"

section \<open>Streaming mapper (streaming.ts)\<close>

text \<open>
  A parsed chunk, by the fields the mapper reads: \<^verbatim>\<open>usage\<close>, \<^verbatim>\<open>tool_calls\<close> (fragments,
  kept as the JSON they are), \<^verbatim>\<open>response\<close>, \<^verbatim>\<open>choices[0].delta.reasoning_content\<close> and
  \<^verbatim>\<open>choices[0].delta.content\<close>.
\<close>

record chunk =
  c_usage :: "backend_usage option"
  c_tool_calls :: "json list option"
  c_response :: "string option"
  c_reasoning_content :: "string option"
  c_content :: "string option"

record mapper = framing +
  usage :: usage
  partialToolCalls :: "json list"

definition initialMapper :: mapper where
  "initialMapper =
     \<lparr>textId = None, reasoningId = None, generated = 0, queue = [],
      usage = \<lparr>outputTokens = 0, inputTokens = 0, totalTokens = 0\<rparr>,
      partialToolCalls = []\<rparr>"

text \<open>The body of the \<^verbatim>\<open>for await\<close> loop from \<^verbatim>\<open>JSON.parse\<close> on.\<close>

definition onChunk :: "(nat \<Rightarrow> string) \<Rightarrow> chunk \<Rightarrow> mapper \<Rightarrow> mapper" where
  "onChunk generateId chunk st =
     (let st1 = (case c_usage chunk of
                   Some u \<Rightarrow> st\<lparr>usage := mapWorkersAIUsage (c_usage chunk)\<rparr>
                 | None \<Rightarrow> st);
          st2 = (case c_tool_calls chunk of
                   Some tcs \<Rightarrow> st1\<lparr>partialToolCalls := partialToolCalls st1 @ tcs\<rparr>
                 | None \<Rightarrow> st1);
          st3 = (case c_response chunk of
                   Some r \<Rightarrow> if r \<noteq> '''' then textDelta generateId r st2 else st2
                 | None \<Rightarrow> st2);
          st4 = (case c_reasoning_content chunk of
                   Some r \<Rightarrow> if r \<noteq> '''' then reasoningDelta generateId r st3 else st3
                 | None \<Rightarrow> st3);
          st5 = (case c_content chunk of
                   Some t \<Rightarrow> if t \<noteq> '''' then textDelta generateId t st4 else st4
                 | None \<Rightarrow> st4)
      in st5)"

text \<open>
  The loop over the server-sent events, each given by its \<^verbatim>\<open>data\<close> (\<open>None\<close> when the event
  has none). \<open>parse\<close> is \<^verbatim>\<open>JSON.parse\<close> followed by the reading of the fields of \<open>chunk\<close>;
  it is \<open>None\<close> where \<^verbatim>\<open>JSON.parse\<close> throws (or gives \<^verbatim>\<open>null\<close>, whose fields cannot be read: an
  exception all the same). The loop returns the state it ends in and the exception that
  ended it, if one did.
\<close>

fun eventLoop ::
  "(nat \<Rightarrow> string) \<Rightarrow> (string \<Rightarrow> chunk option) \<Rightarrow> string option list \<Rightarrow> mapper
    \<Rightarrow> mapper \<times> error option" where
  "eventLoop generateId parse [] st = (st, None)"
| "eventLoop generateId parse (None # evs) st = eventLoop generateId parse evs st"
| "eventLoop generateId parse (Some d # evs) st =
     (if d = '''' then eventLoop generateId parse evs st
      else if d = ''[DONE]'' then (st, None)
      else case parse d of
             None \<Rightarrow> (st, Some SyntaxError)
           | Some chunk \<Rightarrow> eventLoop generateId parse evs (onChunk generateId chunk st))"

text \<open>
  \<open>processPartialToolCalls\<close> (utils.ts) is not among the sources; it is an argument, from
  the accumulated fragments to the tool calls it makes of them.
\<close>

definition getMappedStream ::
  "(nat \<Rightarrow> string) \<Rightarrow> (string \<Rightarrow> chunk option) \<Rightarrow> (json list \<Rightarrow> tool_call list)
    \<Rightarrow> string option list \<Rightarrow> event list \<times> ending" where
  "getMappedStream generateId parse processPartialToolCalls evs =
     (case eventLoop generateId parse evs initialMapper of
        (st, Some e) \<Rightarrow> (queue st, Errored e)
      | (st, None) \<Rightarrow>
          (let st1 = (if length (partialToolCalls st) > 0
                      then foldl (\<lambda>s toolCall. enqueue (ToolCall toolCall) s) st
                             (processPartialToolCalls (partialToolCalls st))
                      else st);
               st2 = closeReasoning st1;
               st3 = closeText st2;
               st4 = enqueue (Finish ''stop'' (usage st3)) st3
           in (queue st4, Closed)))"

section \<open>Chat language model (workersai-chat-language-model.ts)\<close>

text \<open>The call options, the model instance and the arguments \<^verbatim>\<open>getArgs\<close> builds.\<close>

record response_format =
  rf_type :: string
  rf_schema :: "json option"

record call_options =
  prompt :: "turn list"
  responseFormat :: "response_format option"
  tools :: "json list option"
  toolChoice :: "json option"
  maxOutputTokens :: "int option"
  temperature :: "real option"
  topP :: "real option"
  frequencyPenalty :: "real option"
  presencePenalty :: "real option"
  seed :: "int option"

record settings =
  s_gateway :: "json option"
  safePrompt :: "bool option"
  s_rest :: "(string \<times> json) list"

record model =
  modelId :: string
  m_settings :: settings
  config_provider :: string
  config_gateway :: "json option"

record backend_response_format =
  json_schema :: "json option"
  brf_type :: string

record args =
  max_tokens :: "int option"
  a_model :: string
  random_seed :: "int option"
  safe_prompt :: "bool option"
  a_temperature :: "real option"
  top_p :: "real option"
  a_tools :: "json list option"
  tool_choice :: "json option"
  response_format :: "backend_response_format option"

text \<open>What \<^verbatim>\<open>binding.run\<close> is called with: the inputs and the options.\<close>

record request =
  r_max_tokens :: "int option"
  r_messages :: "message list"
  r_stream :: bool
  r_temperature :: "real option"
  r_tools :: "json list option"
  r_top_p :: "real option"
  r_image :: "nat list option"
  r_response_format :: "backend_response_format option"

record run_options =
  ro_gateway :: "json option"
  ro_safePrompt :: "bool option"
  ro_rest :: "(string \<times> json) list"

text \<open>
  What \<^verbatim>\<open>binding.run\<close> resolves to: a \<^verbatim>\<open>ReadableStream\<close> of server-sent events (given by
  their \<^verbatim>\<open>data\<close>) or one document, by the fields the adapter and its helpers read.
\<close>

record document =
  d_response :: "string option"
  d_message_content :: "string option"
  d_reasoning_content :: "string option"
  d_finish_reason :: "string option"
  d_usage :: "backend_usage option"
  d_tool_calls :: "backend_tool_call list option"

datatype backend_output = StreamOutput "string option list" | DocumentOutput document

datatype content_part =
    ReasoningContent string
  | TextContent string
  | ToolCallContent tool_call

record generate_result =
  g_finishReason :: string
  g_content :: "content_part list"
  g_reasoningText :: "string option"
  g_usage :: usage
  g_warnings :: "warning list"

text \<open>
  What the adapter calls and this repository's sources do not define: \<^verbatim>\<open>JSON.stringify\<close>,
  \<^verbatim>\<open>JSON.parse\<close> (on tool-call arguments, and on stream payloads as in \<open>eventLoop\<close>),
  \<^verbatim>\<open>generateId\<close>, the inference binding's \<^verbatim>\<open>run\<close> (\<open>Inl\<close> is the reason of a rejected
  promise), and the helpers of utils.ts and map-workersai-finish-reason.ts, which are
  not among the sources. \<^verbatim>\<open>mapWorkersAIFinishReason\<close> is applied to a backend document in
  \<^verbatim>\<open>doGenerate\<close> and to the result of \<^verbatim>\<open>doGenerate\<close> in \<^verbatim>\<open>doStream\<close>.
\<close>

record externals =
  ext_stringify :: "json \<Rightarrow> string"
  ext_parseArguments :: "string \<Rightarrow> json"
  ext_parseChunk :: "string \<Rightarrow> chunk option"
  ext_generateId :: "nat \<Rightarrow> string"
  ext_run :: "string \<Rightarrow> request \<Rightarrow> run_options \<Rightarrow> string + backend_output"
  ext_prepareToolsAndToolChoice :: "json list option \<Rightarrow> json option \<Rightarrow> json list option \<times> json option"
  ext_lastMessageWasUser :: "message list \<Rightarrow> bool"
  ext_processText :: "document \<Rightarrow> string option"
  ext_processPartialToolCalls :: "json list \<Rightarrow> tool_call list"
  ext_mapWorkersAIFinishReason :: "document + generate_result \<Rightarrow> string"

text \<open>
  Modelled from the spec: \<^verbatim>\<open>processToolCalls\<close> is defined in utils.ts, which is not among
  the sources. Section 4.3 of the spec: "zero or more tool-call parts derived from the
  response's tool-call list, each carrying the tool name and the arguments parsed back
  out of their JSON-string encoding into structured input"; section 3 gives a backend
  tool call as \<^verbatim>\<open>{id, type, function: {name, arguments}}\<close>.
\<close>

definition processToolCalls :: "(string \<Rightarrow> json) \<Rightarrow> document \<Rightarrow> tool_call list" where
  "processToolCalls parse output =
     (case d_tool_calls output of
        None \<Rightarrow> []
      | Some tcs \<Rightarrow>
          map (\<lambda>tc. \<lparr>toolCallId = call_id tc, toolName = fn_name tc,
                     input = parse (fn_arguments tc)\<rparr>) tcs)"

definition getArgs :: "externals \<Rightarrow> model \<Rightarrow> call_options \<Rightarrow> error + (args \<times> warning list)" where
  "getArgs ext self options =
     (let type = (case responseFormat options of None \<Rightarrow> ''text'' | Some f \<Rightarrow> rf_type f);
          warnings =
            (if frequencyPenalty options \<noteq> None then [UnsupportedSetting ''frequencyPenalty''] else []) @
            (if presencePenalty options \<noteq> None then [UnsupportedSetting ''presencePenalty''] else []);
          baseArgs =
            \<lparr>max_tokens = maxOutputTokens options,
             a_model = modelId self,
             random_seed = seed options,
             safe_prompt = safePrompt (m_settings self),
             a_temperature = temperature options,
             top_p = topP options,
             a_tools = None, tool_choice = None, response_format = None\<rparr>
      in if type = ''text''
         then (case ext_prepareToolsAndToolChoice ext (tools options) (toolChoice options) of
                 (ts, tc) \<Rightarrow> Inr (baseArgs\<lparr>a_tools := ts, tool_choice := tc\<rparr>, warnings))
         else if type = ''json''
         then Inr (baseArgs\<lparr>response_format :=
                       Some \<lparr>json_schema = (case responseFormat options of
                                               None \<Rightarrow> None | Some f \<Rightarrow> rf_schema f),
                             brf_type = ''json_schema''\<rparr>,
                     a_tools := None\<rparr>, warnings)
         else Inl (Error (''Unsupported type: '' @ type)))"

definition multipleImages :: error where
  "multipleImages = Error ''Multiple images are not yet supported as input''"

text \<open>The guard \<^verbatim>\<open>images.length !== 0 && images.length !== 1\<close> of both methods.\<close>

definition notZeroNorOne :: "image list \<Rightarrow> bool" where
  "notZeroNorOne imgs = (length imgs \<noteq> 0 \<and> length imgs \<noteq> 1)"

definition buildRequest :: "args \<Rightarrow> converted \<Rightarrow> bool \<Rightarrow> request" where
  "buildRequest args cv streaming =
     \<lparr>r_max_tokens = max_tokens args,
      r_messages = messages cv,
      r_stream = streaming,
      r_temperature = a_temperature args,
      r_tools = a_tools args,
      r_top_p = top_p args,
      r_image = (case images cv of [] \<Rightarrow> None | imagePart # rest \<Rightarrow> Some (map unat (image imagePart))),
      r_response_format = response_format args\<rparr>"

text \<open>
  The third argument of \<^verbatim>\<open>binding.run\<close>:
  \<^verbatim>\<open>{ gateway: this.config.gateway ?? gateway, ...passthroughOptions }\<close>. \<^verbatim>\<open>doGenerate\<close>
  takes \<^verbatim>\<open>safePrompt\<close> out of the settings it passes through, \<^verbatim>\<open>doStream\<close> does not.
\<close>

definition runOptions :: "model \<Rightarrow> bool option \<Rightarrow> run_options" where
  "runOptions self passedSafePrompt =
     \<lparr>ro_gateway = (case config_gateway self of
                      None \<Rightarrow> s_gateway (m_settings self)
                    | Some g \<Rightarrow> Some g),
      ro_safePrompt = passedSafePrompt,
      ro_rest = s_rest (m_settings self)\<rparr>"

text \<open>The object \<^verbatim>\<open>doGenerate\<close> returns for the document the backend answered with.\<close>

definition generateResult :: "externals \<Rightarrow> warning list \<Rightarrow> document \<Rightarrow> generate_result" where
  "generateResult ext ws output =
     (let reasoningContent = d_reasoning_content output
      in \<lparr>g_finishReason = ext_mapWorkersAIFinishReason ext (Inl output),
          g_content =
            (if truthy reasoningContent
             then (case reasoningContent of Some t \<Rightarrow> [ReasoningContent t] | None \<Rightarrow> [])
             else []) @
            [TextContent (case ext_processText ext output of None \<Rightarrow> '''' | Some t \<Rightarrow> t)] @
            map ToolCallContent (processToolCalls (ext_parseArguments ext) output),
          g_reasoningText = reasoningContent,
          g_usage = mapWorkersAIUsage (d_usage output),
          g_warnings = ws\<rparr>)"

text \<open>
  \<^verbatim>\<open>doGenerate\<close> and \<^verbatim>\<open>doStream\<close> return the requests issued to the backend, in order, and
  either the exception thrown or the result.
\<close>

definition doGenerate ::
  "externals \<Rightarrow> model \<Rightarrow> call_options \<Rightarrow> request list \<times> (error + generate_result)" where
  "doGenerate ext self options =
     (case getArgs ext self options of
        Inl e \<Rightarrow> ([], Inl e)
      | Inr (args, warnings) \<Rightarrow>
          (case convertToWorkersAIChatMessages (ext_stringify ext) (prompt options) of
             Inl e \<Rightarrow> ([], Inl e)
           | Inr cv \<Rightarrow>
               if notZeroNorOne (images cv)
               then ([], Inl multipleImages)
               else
                 (let req = buildRequest args cv False;
                      opts = runOptions self None
                  in case ext_run ext (a_model args) req opts of
                       Inl reason \<Rightarrow> ([req], Inl (Rejected reason))
                     | Inr (StreamOutput s) \<Rightarrow> ([req], Inl (Error ''This shouldn't happen''))
                     | Inr (DocumentOutput output) \<Rightarrow>
                         ([req], Inr (generateResult ext warnings output)))))"

text \<open>The body of the loop of the simulated stream over \<^verbatim>\<open>response.content\<close>.\<close>

fun simulatePart :: "(nat \<Rightarrow> string) \<Rightarrow> content_part \<Rightarrow> framing \<Rightarrow> framing" where
  "simulatePart generateId (TextContent t) st = textDelta generateId t st"
| "simulatePart generateId (ToolCallContent tc) st = enqueue (ToolCall tc) st"
| "simulatePart generateId (ReasoningContent t) st =
     (let st' = openReasoning generateId st
      in enqueue (ReasoningDelta (generateId (generated st')) t)
           (st'\<lparr>generated := Suc (generated st')\<rparr>))"

definition simulatedStream :: "externals \<Rightarrow> warning list \<Rightarrow> generate_result \<Rightarrow> event list \<times> ending" where
  "simulatedStream ext ws response =
     (let st0 = enqueue (StreamStart ws)
                  \<lparr>textId = None, reasoningId = None, generated = 0, queue = []\<rparr>;
          st1 = foldl (\<lambda>st contentPart. simulatePart (ext_generateId ext) contentPart st) st0
                  (g_content response);
          st2 = closeReasoning st1;
          st3 = closeText st2;
          st4 = enqueue (Finish (ext_mapWorkersAIFinishReason ext (Inr response)) (g_usage response)) st3
      in (queue st4, Closed))"

text \<open>
  The piped stream: \<^verbatim>\<open>stream-start\<close>, then every event read from the mapped stream. It
  closes when the mapped stream is done; when a read rejects, the promise chain of
  \<^verbatim>\<open>push\<close> has no handler and the stream is neither closed nor errored.
\<close>

definition pipedStream :: "warning list \<Rightarrow> event list \<times> ending \<Rightarrow> event list \<times> ending" where
  "pipedStream ws mapped =
     (case mapped of
        (es, Closed) \<Rightarrow> (StreamStart ws # es, Closed)
      | (es, other) \<Rightarrow> (StreamStart ws # es, Pending))"

definition doStream ::
  "externals \<Rightarrow> model \<Rightarrow> call_options \<Rightarrow> request list \<times> (error + event list \<times> ending)" where
  "doStream ext self options =
     (case getArgs ext self options of
        Inl e \<Rightarrow> ([], Inl e)
      | Inr (args, warnings) \<Rightarrow>
          (case convertToWorkersAIChatMessages (ext_stringify ext) (prompt options) of
             Inl e \<Rightarrow> ([], Inl e)
           | Inr cv \<Rightarrow>
               if (case a_tools args of None \<Rightarrow> False | Some ts \<Rightarrow> length ts \<noteq> 0) \<and>
                  ext_lastMessageWasUser ext (messages cv)
               then (case doGenerate ext self options of
                       (reqs, Inl e) \<Rightarrow> (reqs, Inl e)
                     | (reqs, Inr response) \<Rightarrow> (reqs, Inr (simulatedStream ext warnings response)))
               else if notZeroNorOne (images cv)
               then ([], Inl multipleImages)
               else
                 (let req = buildRequest args cv True;
                      opts = runOptions self (safePrompt (m_settings self))
                  in case ext_run ext (a_model args) req opts of
                       Inl reason \<Rightarrow> ([req], Inl (Rejected reason))
                     | Inr (DocumentOutput output) \<Rightarrow> ([req], Inl (Error ''This shouldn't happen''))
                     | Inr (StreamOutput response) \<Rightarrow>
                         ([req],
                          Inr (pipedStream warnings
                                 (getMappedStream (ext_generateId ext) (ext_parseChunk ext)
                                    (ext_processPartialToolCalls ext) response))))))"

section \<open>Product recommendation workflow (workflows/product-recommendation.ts)\<close>

text \<open>
  A JavaScript number as the workflow compares it: a real, or \<^verbatim>\<open>NaN\<close> (also standing for a
  field that is missing), for which every comparison is false. \<open>ge\<close> is \<^verbatim>\<open>>=\<close> and \<open>le\<close>
  is \<^verbatim>\<open><=\<close>.
\<close>

datatype number = NaN | Num real

fun ge :: "number \<Rightarrow> number \<Rightarrow> bool" where
  "ge (Num a) (Num b) = (b \<le> a)"
| "ge a b = False"

fun le :: "number \<Rightarrow> number \<Rightarrow> bool" where
  "le (Num a) (Num b) = (a \<le> b)"
| "le a b = False"

text \<open>
  A product by the fields the workflow reads, the others kept in \<open>p_rest\<close>; the payload
  of the workflow event; the value the workflow returns.
\<close>

record product =
  p_id :: int
  title :: string
  description :: string
  price :: number
  rating :: number
  p_rest :: json

record params =
  query :: string
  minPrice :: "number option"
  maxPrice :: "number option"

record recommendation_output =
  topProducts :: "product list"
  followUpQuestion :: string

text \<open>
  The services the workflow awaits: the product search (\<^verbatim>\<open>fetch\<close> and \<^verbatim>\<open>response.json\<close>, by
  the query), the language model (\<^verbatim>\<open>env.AI.run\<close> on the prompt made of the query and the
  filtered products, giving \<^verbatim>\<open>result.response\<close>), and \<^verbatim>\<open>JSON.parse\<close> (\<open>None\<close> where it
  throws). \<open>Inl\<close> is the reason of a rejected promise.
\<close>

record workflow_env =
  fetchProducts :: "string \<Rightarrow> string + product list"
  rankWithAI :: "string \<Rightarrow> product list \<Rightarrow> string + string option"
  parseJSON :: "string \<Rightarrow> json option"

text \<open>The callback of the step "filter products based on rating and price range".\<close>

definition filterProducts :: "params \<Rightarrow> product list \<Rightarrow> product list" where
  "filterProducts payload fetchedProducts =
     filter (\<lambda>p.
       let meetsMin = (case minPrice payload of Some m \<Rightarrow> ge (price p) m | None \<Rightarrow> True);
           meetsMax = (case maxPrice payload of Some m \<Rightarrow> le (price p) m | None \<Rightarrow> True)
       in ge (rating p) (Num 2) \<and> meetsMin \<and> meetsMax) fetchedProducts"

text \<open>
  The end of the step "rank products with LLM":
  \<^verbatim>\<open>rankedIds.map((id) => filteredProducts.find((p) => p.id === id)).filter(Boolean).slice(0, 3)\<close>.
\<close>

definition rankedProducts :: "json list \<Rightarrow> product list \<Rightarrow> product list" where
  "rankedProducts rankedIds filteredProducts =
     take 3 (map the (filter (\<lambda>found. found \<noteq> None)
       (map (\<lambda>id. find (\<lambda>p. JNum (p_id p) = id) filteredProducts) rankedIds)))"

text \<open>
  \<^verbatim>\<open>ProductRecommendationWorkflow.run\<close>. A value parsed from the model's answer that is not
  an array has no \<^verbatim>\<open>map\<close> method.
\<close>

definition run :: "workflow_env \<Rightarrow> params \<Rightarrow> error + recommendation_output" where
  "run env payload =
     (case fetchProducts env (query payload) of
        Inl reason \<Rightarrow> Inl (Rejected reason)
      | Inr fetchedProducts \<Rightarrow>
          (let filteredProducts = filterProducts payload fetchedProducts
           in case rankWithAI env (query payload) filteredProducts of
                Inl reason \<Rightarrow> Inl (Rejected reason)
              | Inr response \<Rightarrow>
                  (case parseJSON env (case response of
                                         Some s \<Rightarrow> if s \<noteq> '''' then s else ''[]''
                                       | None \<Rightarrow> ''[]'') of
                     None \<Rightarrow> Inl SyntaxError
                   | Some (JArr rankedIds) \<Rightarrow>
                       Inr \<lparr>topProducts = rankedProducts rankedIds filteredProducts,
                            followUpQuestion =
                              ''Do you want me to highlight the pros and cons of these top 3 products?''\<rparr>
                   | Some other \<Rightarrow> Inl TypeError)))"

section \<open>A concrete environment for closed examples\<close>

text \<open>
  Ids \<^verbatim>\<open>id-0\<close>, \<^verbatim>\<open>id-1\<close>, ... in the order of the calls; three stream payloads with the
  chunks they parse to, and a run of events around them; a document; the externals, with
  the backend's answer as a parameter.
\<close>

definition exampleIds :: "nat \<Rightarrow> string" where
  "exampleIds k = ''id-'' @ Number_toString k"

definition exampleChunks :: "chunk list" where
  "exampleChunks =
     [\<lparr>c_usage = None, c_tool_calls = None, c_response = None,
       c_reasoning_content = Some ''hm'', c_content = None\<rparr>,
      \<lparr>c_usage = Some \<lparr>prompt_tokens = 5, completion_tokens = 7\<rparr>, c_tool_calls = None,
       c_response = Some ''Hi'', c_reasoning_content = None, c_content = Some '' there''\<rparr>,
      \<lparr>c_usage = Some \<lparr>prompt_tokens = 11, completion_tokens = 13\<rparr>,
       c_tool_calls = Some [JObj [(''index'', JNum 0), (''name'', JStr ''get'')]],
       c_response = None, c_reasoning_content = None, c_content = None\<rparr>]"

definition exampleParse :: "string \<Rightarrow> chunk option" where
  "exampleParse = map_of (zip [''reasoning'', ''text'', ''call''] exampleChunks)"

definition exampleEvents :: "string option list" where
  "exampleEvents =
     [Some ''reasoning'', None, Some ''text'', Some '''', Some ''call'', Some ''[DONE]'', Some ''text'']"

definition exampleToolCalls :: "json list \<Rightarrow> tool_call list" where
  "exampleToolCalls fragments =
     map (\<lambda>f. \<lparr>toolCallId = ''call-0'', toolName = ''get'', input = f\<rparr>) fragments"

definition exampleDocument :: "string option \<Rightarrow> document" where
  "exampleDocument reasoning =
     \<lparr>d_response = Some ''Hi'', d_message_content = None, d_reasoning_content = reasoning,
      d_finish_reason = Some ''stop'',
      d_usage = Some \<lparr>prompt_tokens = 3, completion_tokens = 2\<rparr>,
      d_tool_calls = Some [\<lparr>fn_arguments = ''{}'', fn_name = ''get'', call_id = ''call-1'',
                            call_type = ''function''\<rparr>]\<rparr>"

definition exampleExternals :: "backend_output \<Rightarrow> externals" where
  "exampleExternals out =
     \<lparr>ext_stringify = JSON_stringify,
      ext_parseArguments = (\<lambda>s. if s = ''{}'' then JObj [] else JNull),
      ext_parseChunk = exampleParse,
      ext_generateId = exampleIds,
      ext_run = (\<lambda>m req opts. Inr out),
      ext_prepareToolsAndToolChoice = (\<lambda>ts tc. (ts, tc)),
      ext_lastMessageWasUser = (\<lambda>ms. case rev ms of UserMessage c # earlier \<Rightarrow> True | other \<Rightarrow> False),
      ext_processText = d_response,
      ext_processPartialToolCalls = exampleToolCalls,
      ext_mapWorkersAIFinishReason = (\<lambda>x. ''stop'')\<rparr>"

definition exampleModel :: model where
  "exampleModel =
     \<lparr>modelId = ''@cf/meta/llama-3.1-8b-instruct'',
      m_settings = \<lparr>s_gateway = None, safePrompt = None, s_rest = []\<rparr>,
      config_provider = ''workersai.chat'', config_gateway = None\<rparr>"

definition exampleOptions :: "turn list \<Rightarrow> json list option \<Rightarrow> call_options" where
  "exampleOptions turns ts =
     \<lparr>prompt = turns, responseFormat = None, tools = ts, toolChoice = None,
      maxOutputTokens = None, temperature = None, topP = None, frequencyPenalty = None,
      presencePenalty = None, seed = None\<rparr>"

text \<open>Four products, a ranking that names five ids, and a payload with a maximal price.\<close>

definition exampleProducts :: "product list" where
  "exampleProducts =
     [\<lparr>p_id = 1, title = ''Shirt A'', description = ''cotton'', price = Num 20, rating = Num 4,
       p_rest = JNull\<rparr>,
      \<lparr>p_id = 2, title = ''Shirt B'', description = ''linen'', price = Num 35, rating = Num 1.5,
       p_rest = JNull\<rparr>,
      \<lparr>p_id = 3, title = ''Shirt C'', description = ''silk'', price = Num 900, rating = Num 5,
       p_rest = JNull\<rparr>,
      \<lparr>p_id = 4, title = ''Shirt D'', description = ''wool'', price = Num 60, rating = Num 3,
       p_rest = JNull\<rparr>]"

definition exampleWorkflowEnv :: workflow_env where
  "exampleWorkflowEnv =
     \<lparr>fetchProducts = (\<lambda>q. Inr exampleProducts),
      rankWithAI = (\<lambda>q ps. Inr (Some ''[4, 2, 9, 1, 3]'')),
      parseJSON = (\<lambda>s. if s = ''[4, 2, 9, 1, 3]''
                         then Some (JArr [JNum 4, JNum 2, JNum 9, JNum 1, JNum 3])
                         else if s = ''[]'' then Some (JArr []) else None)\<rparr>"

definition examplePayload :: params where
  "examplePayload = \<lparr>query = ''shirt'', minPrice = None, maxPrice = Some (Num 1000)\<rparr>"

section \<open>Vocabulary of the properties\<close>

text \<open>
  The part variants the assistant case accepts (its three \<^verbatim>\<open>case\<close> labels); every other
  variant reaches its \<^verbatim>\<open>default\<close>.
\<close>

fun supportedAssistantPart :: "part \<Rightarrow> bool" where
  "supportedAssistantPart (TextPart t) = True"
| "supportedAssistantPart (ReasoningPart t) = True"
| "supportedAssistantPart (ToolCallPart i n inp) = True"
| "supportedAssistantPart p = False"

text \<open>The parts that append to the running text buffer, and what they append.\<close>

fun textOrReasoning :: "part \<Rightarrow> bool" where
  "textOrReasoning (TextPart t) = True"
| "textOrReasoning (ReasoningPart t) = True"
| "textOrReasoning p = False"

fun partText :: "part \<Rightarrow> string" where
  "partText (TextPart t) = t"
| "partText (ReasoningPart t) = t"
| "partText p = ''''"

text \<open>The tool names of the tool-call parts of a turn, in order.\<close>

fun toolCallNames :: "part list \<Rightarrow> string list" where
  "toolCallNames [] = []"
| "toolCallNames (ToolCallPart i n inp # ps) = n # toolCallNames ps"
| "toolCallNames (p # ps) = toolCallNames ps"

text \<open>The turns at which the converter throws: an unknown role, or an assistant turn with a part outside its three cases.\<close>

fun raises :: "turn \<Rightarrow> bool" where
  "raises (OtherRole r) = True"
| "raises (Assistant content) = list_ex (\<lambda>p. \<not> supportedAssistantPart p) content"
| "raises t = False"

text \<open>
  The messages and the images one turn contributes (none where the turn throws). The
  loop over the prompt appends them in order.
\<close>

definition turnMessages :: "(json \<Rightarrow> string) \<Rightarrow> turn \<Rightarrow> message list" where
  "turnMessages S t = (case convertTurn S t of Inl e \<Rightarrow> [] | Inr (ms, is) \<Rightarrow> ms)"

definition turnImages :: "(json \<Rightarrow> string) \<Rightarrow> turn \<Rightarrow> image list" where
  "turnImages S t = (case convertTurn S t of Inl e \<Rightarrow> [] | Inr (ms, is) \<Rightarrow> is)"

subsection \<open>Framing of a stream\<close>

text \<open>
  The ids of the text blocks (reasoning blocks) that are open after a run of events: a
  start adds its id, an end removes it. The first argument is what was open before.
\<close>

fun openTextIds :: "string list \<Rightarrow> event list \<Rightarrow> string list" where
  "openTextIds ts [] = ts"
| "openTextIds ts (TextStart i # es) = openTextIds (ts @ [i]) es"
| "openTextIds ts (TextEnd i # es) = openTextIds (removeAll i ts) es"
| "openTextIds ts (e # es) = openTextIds ts es"

fun openReasoningIds :: "string list \<Rightarrow> event list \<Rightarrow> string list" where
  "openReasoningIds rs [] = rs"
| "openReasoningIds rs (ReasoningStart i # es) = openReasoningIds (rs @ [i]) es"
| "openReasoningIds rs (ReasoningEnd i # es) = openReasoningIds (removeAll i rs) es"
| "openReasoningIds rs (e # es) = openReasoningIds rs es"

text \<open>
  Every delta carries the id of a start of its kind emitted before it and not closed
  since: the id is among the open ones where the delta stands.
\<close>

fun deltasFramed :: "string list \<Rightarrow> string list \<Rightarrow> event list \<Rightarrow> bool" where
  "deltasFramed ts rs [] = True"
| "deltasFramed ts rs (TextStart i # es) = deltasFramed (ts @ [i]) rs es"
| "deltasFramed ts rs (TextDelta i d # es) = (i \<in> set ts \<and> deltasFramed ts rs es)"
| "deltasFramed ts rs (TextEnd i # es) = deltasFramed (removeAll i ts) rs es"
| "deltasFramed ts rs (ReasoningStart i # es) = deltasFramed ts (rs @ [i]) es"
| "deltasFramed ts rs (ReasoningDelta i d # es) = (i \<in> set rs \<and> deltasFramed ts rs es)"
| "deltasFramed ts rs (ReasoningEnd i # es) = deltasFramed ts (removeAll i rs) es"
| "deltasFramed ts rs (e # es) = deltasFramed ts rs es"

text \<open>Exactly one finish event, and it is the last event.\<close>

fun isFinish :: "event \<Rightarrow> bool" where
  "isFinish (Finish r u) = True"
| "isFinish e = False"

definition finishOnceLast :: "event list \<Rightarrow> bool" where
  "finishOnceLast es = (es \<noteq> [] \<and> isFinish (last es) \<and> length (filter isFinish es) = 1)"

text \<open>The events the mapper emits while it reads chunks.\<close>

fun startOrDelta :: "event \<Rightarrow> bool" where
  "startOrDelta (TextStart i) = True"
| "startOrDelta (TextDelta i d) = True"
| "startOrDelta (ReasoningStart i) = True"
| "startOrDelta (ReasoningDelta i d) = True"
| "startOrDelta e = False"

subsection \<open>The input of the mapper as a chunk sequence\<close>

text \<open>
  The payloads the loop hands to \<^verbatim>\<open>JSON.parse\<close>: the non-empty \<^verbatim>\<open>data\<close> of the events before
  the sentinel. For a sequence of chunks: the fragments of all its \<^verbatim>\<open>tool_calls\<close> fields,
  in order, and the usage of the last chunk that has one (zero when none has).
\<close>

fun payloads :: "string option list \<Rightarrow> string list" where
  "payloads [] = []"
| "payloads (None # evs) = payloads evs"
| "payloads (Some d # evs) =
     (if d = '''' then payloads evs else if d = ''[DONE]'' then [] else d # payloads evs)"

definition fragmentsOf :: "chunk list \<Rightarrow> json list" where
  "fragmentsOf cs = concat (map (\<lambda>c. case c_tool_calls c of None \<Rightarrow> [] | Some tcs \<Rightarrow> tcs) cs)"

definition lastUsage :: "chunk list \<Rightarrow> usage" where
  "lastUsage cs =
     (case rev (filter (\<lambda>c. c_usage c \<noteq> None) cs) of
        [] \<Rightarrow> \<lparr>outputTokens = 0, inputTokens = 0, totalTokens = 0\<rparr>
      | c # older \<Rightarrow> mapWorkersAIUsage (c_usage c))"

subsection \<open>Invariants of the framing state\<close>

text \<open>
  \<open>framedState\<close> holds of every state of either producer's text path and of the mapper's
  reasoning path, whatever the ids are. \<open>tightState\<close> holds of the mapper when no
  generated id is empty: the open blocks are exactly the ids the state holds.
  \<open>onlyBlocks\<close>: nothing but starts and deltas has been enqueued. \<open>closing\<close> is what the
  mapper enqueues after the loop.
\<close>

definition idList :: "string option \<Rightarrow> string list" where
  "idList x = (case x of None \<Rightarrow> [] | Some i \<Rightarrow> [i])"

definition framedState :: "'a framing_scheme \<Rightarrow> bool" where
  "framedState st =
     (deltasFramed [] [] (queue st) \<and>
      set (idList (textId st)) \<subseteq> set (openTextIds [] (queue st)) \<and>
      set (idList (reasoningId st)) \<subseteq> set (openReasoningIds [] (queue st)))"

definition tightState :: "'a framing_scheme \<Rightarrow> bool" where
  "tightState st =
     (openTextIds [] (queue st) = idList (textId st) \<and>
      openReasoningIds [] (queue st) = idList (reasoningId st) \<and>
      textId st \<noteq> Some '''' \<and> reasoningId st \<noteq> Some '''')"

definition onlyBlocks :: "'a framing_scheme \<Rightarrow> bool" where
  "onlyBlocks st = list_all startOrDelta (queue st)"

definition closing :: "(json list \<Rightarrow> tool_call list) \<Rightarrow> mapper \<Rightarrow> event list" where
  "closing ppc st =
     (if partialToolCalls st = [] then [] else map ToolCall (ppc (partialToolCalls st))) @
     (case reasoningId st of None \<Rightarrow> [] | Some i \<Rightarrow> if i = '''' then [] else [ReasoningEnd i]) @
     (case textId st of None \<Rightarrow> [] | Some i \<Rightarrow> if i = '''' then [] else [TextEnd i]) @
     [Finish ''stop'' (usage st)]"

section \<open>Properties of the message converter\<close>

subsection \<open>Indexed maps and the assistant loop\<close>

lemma mapIndex_length [simp]: "length (mapIndex f xs) = length xs"
  by (simp add: mapIndex_def)

lemma mapIndex_nth: "i < length xs \<Longrightarrow> mapIndex f xs ! i = f (xs ! i) i"
  by (simp add: mapIndex_def)

lemma mapIndex_Nil [simp]: "mapIndex f [] = []"
  by (simp add: mapIndex_def)

lemma mapIndex_eq_Nil [simp]: "(mapIndex f xs = []) = (xs = [])"
  by (simp add: mapIndex_def)

lemma assistantParts_textOrReasoning:
  "list_all textOrReasoning ys \<Longrightarrow>
   assistantParts S ys buf tcs = Inr (buf @ concat (map partText ys), tcs)"
proof (induction ys arbitrary: buf)
  case Nil
  then show ?case by simp
next
  case (Cons y ys)
  then show ?case by (cases y) simp_all
qed

lemma assistantParts_supported:
  "list_all supportedAssistantPart ps \<Longrightarrow>
   \<exists>text' tcs'. assistantParts S ps buf tcs = Inr (text', tcs @ tcs') \<and>
      map fn_name tcs' = toolCallNames ps"
proof (induction ps arbitrary: buf tcs)
  case Nil
  then show ?case by simp
next
  case (Cons p ps)
  show ?case
  proof (cases p)
    case (ToolCallPart i n inp)
    from Cons.prems have "list_all supportedAssistantPart ps" by simp
    from Cons.IH [OF this] obtain text' tcs' where
      "assistantParts S ps (S (JObj [(''name'', JStr n), (''parameters'', inp)]))
         (tcs @ [\<lparr>fn_arguments = S inp, fn_name = n, call_id = i, call_type = ''function''\<rparr>])
       = Inr (text', (tcs @ [\<lparr>fn_arguments = S inp, fn_name = n, call_id = i, call_type = ''function''\<rparr>]) @ tcs')"
      and "map fn_name tcs' = toolCallNames ps"
      by blast
    then show ?thesis using ToolCallPart by simp
  qed (use Cons in simp_all)
qed

lemma assistantParts_last_call:
  assumes "list_all supportedAssistantPart xs" and "list_all textOrReasoning ys"
  shows "\<exists>tcs'. assistantParts S (xs @ ToolCallPart i n inp # ys) buf tcs =
           Inr (S (JObj [(''name'', JStr n), (''parameters'', inp)]) @ concat (map partText ys),
                tcs @ tcs') \<and> tcs' \<noteq> []"
  using assms(1)
proof (induction xs arbitrary: buf tcs)
  case Nil
  show ?case using assistantParts_textOrReasoning [OF assms(2)] by simp
next
  case (Cons p ps)
  show ?case
  proof (cases p)
    case (ToolCallPart i' n' inp')
    from Cons.prems have "list_all supportedAssistantPart ps" by simp
    from Cons.IH [OF this] obtain tcs' where
      "assistantParts S (ps @ ToolCallPart i n inp # ys) (S (JObj [(''name'', JStr n'), (''parameters'', inp')]))
         (tcs @ [\<lparr>fn_arguments = S inp', fn_name = n', call_id = i', call_type = ''function''\<rparr>])
       = Inr (S (JObj [(''name'', JStr n), (''parameters'', inp)]) @ concat (map partText ys),
              (tcs @ [\<lparr>fn_arguments = S inp', fn_name = n', call_id = i', call_type = ''function''\<rparr>]) @ tcs')"
      by blast
    then show ?thesis using ToolCallPart by simp
  qed (use Cons in simp_all)
qed

lemma assistantParts_unsupported:
  "list_ex (\<lambda>p. \<not> supportedAssistantPart p) ps \<Longrightarrow> \<exists>e. assistantParts S ps buf tcs = Inl e"
proof (induction ps arbitrary: buf tcs)
  case Nil
  then show ?case by simp
next
  case (Cons p ps)
  then show ?case by (cases p) simp_all
qed

lemma assistantParts_calls:
  "list_all supportedAssistantPart ps \<Longrightarrow>
   \<exists>text' tcs'. assistantParts S ps '''' [] = Inr (text', tcs') \<and>
      map fn_name tcs' = toolCallNames ps"
  using assistantParts_supported [of ps S "''''" "[]"] by simp

subsection \<open>The loop over the turns\<close>

lemma convertTurn_raises: "(\<exists>e. convertTurn S t = Inl e) = raises t"
proof (cases t)
  case (Assistant content)
  show ?thesis
  proof (cases "list_ex (\<lambda>p. \<not> supportedAssistantPart p) content")
    case True
    with assistantParts_unsupported [OF True, of S "''''" "[]"] Assistant show ?thesis
      by auto
  next
    case False
    then have "list_all supportedAssistantPart content"
      by (simp add: list_all_iff list_ex_iff)
    from assistantParts_supported [OF this, of S "''''" "[]"] False Assistant show ?thesis
      by auto
  qed
qed simp_all

lemma convertLoop_raises:
  "(\<exists>e. convertLoop S ts msgs imgs = Inl e) = list_ex raises ts"
proof (induction ts arbitrary: msgs imgs)
  case Nil
  then show ?case by simp
next
  case (Cons t ts)
  show ?case
  proof (cases "convertTurn S t")
    case (Inl e)
    then have "raises t" using convertTurn_raises [of S t] by auto
    with Inl show ?thesis by simp
  next
    case (Inr r)
    then have "\<not> raises t" using convertTurn_raises [of S t] by auto
    with Inr Cons.IH show ?thesis by (cases r) simp
  qed
qed

lemma convertTurn_no_raise:
  "\<not> raises t \<Longrightarrow> convertTurn S t = Inr (turnMessages S t, turnImages S t)"
  using convertTurn_raises [of S t]
  by (cases "convertTurn S t") (auto simp add: turnMessages_def turnImages_def)

lemma convertLoop_no_raise:
  "\<not> list_ex raises ts \<Longrightarrow>
   convertLoop S ts msgs imgs =
     Inr \<lparr>images = imgs @ concat (map (turnImages S) ts),
          messages = msgs @ concat (map (turnMessages S) ts)\<rparr>"
  by (induction ts arbitrary: msgs imgs) (simp_all add: convertTurn_no_raise)

lemma convert_no_raise:
  "\<not> list_ex raises ts \<Longrightarrow>
   convertToWorkersAIChatMessages S ts =
     Inr \<lparr>images = concat (map (turnImages S) ts),
          messages = concat (map (turnMessages S) ts)\<rparr>"
  by (simp add: convertToWorkersAIChatMessages_def convertLoop_no_raise)

lemma raises_Assistant_supported:
  "list_all supportedAssistantPart ps \<Longrightarrow> \<not> raises (Assistant ps)"
  by (simp add: list_all_iff list_ex_iff)

lemma convertLoop_cong_turn:
  assumes "convertTurn S t = convertTurn S t'"
  shows "convertLoop S (pre @ t # post) msgs imgs = convertLoop S (pre @ t' # post) msgs imgs"
  using assms by (induction pre arbitrary: msgs imgs) (simp_all split: sum.splits)

lemma turnMessages_Assistant:
  assumes "list_all supportedAssistantPart xs" and "list_all textOrReasoning ys"
  shows "\<exists>tcs. turnMessages S (Assistant (xs @ ToolCallPart i n inp # ys)) =
           [AssistantMessage
              (S (JObj [(''name'', JStr n), (''parameters'', inp)]) @ concat (map partText ys))
              (Some tcs)]"
proof -
  from assistantParts_last_call [OF assms, of S i n inp "''''" "[]"]
  obtain tcs' where
    "assistantParts S (xs @ ToolCallPart i n inp # ys) '''' [] =
       Inr (S (JObj [(''name'', JStr n), (''parameters'', inp)]) @ concat (map partText ys), tcs')"
    and "tcs' \<noteq> []"
    by auto
  then show ?thesis
    by (simp add: turnMessages_def)
qed

subsection \<open>Tool-call id symmetry\<close>

text \<open>
  Claim C2. Take an assistant turn whose parts the converter accepts, with tool-call
  parts named \<open>toolCallNames aps\<close> (positions \<open>0..n-1\<close> of its tool-call list), and a
  later tool turn whose results carry the same tool names in the same order, in a
  prompt whose other turns (\<open>pre\<close>, \<open>mid\<close>, \<open>post\<close>) convert. Then the conversion succeeds;
  the assistant message carries one backend tool call per result; the \<open>index\<close>-th tool
  message's \<^verbatim>\<open>tool_call_id\<close> is the id of the \<open>index\<close>-th backend tool call; and these ids
  are \<^verbatim>\<open>functions.<name>:<index>\<close>. (With no tool call at all the assistant message has no
  \<^verbatim>\<open>tool_calls\<close> field and the tool turn gives no message.)
\<close>

theorem tool_call_id_symmetry:
  assumes "list_all supportedAssistantPart aps"
    and "map tr_toolName rs = toolCallNames aps"
    and "\<not> list_ex raises (pre @ mid @ post)"
  shows "\<exists>cv buf tcs.
           convertToWorkersAIChatMessages S (pre @ Assistant aps # mid @ Tool rs # post) = Inr cv \<and>
           messages cv =
             concat (map (turnMessages S) pre) @
             AssistantMessage buf (if rs = [] then None else Some tcs) #
             concat (map (turnMessages S) mid) @
             mapIndex (\<lambda>r index. ToolMessage (S (tr_output r)) (tr_toolName r)
                (call_id (tcs ! index))) rs @
             concat (map (turnMessages S) post) \<and>
           length tcs = length rs \<and>
           map call_id tcs = mapIndex functionsId (toolCallNames aps)"
proof -
  from assistantParts_calls [OF assms(1), of S] obtain buf tcs' where
    run: "assistantParts S aps '''' [] = Inr (buf, tcs')"
    and names: "map fn_name tcs' = toolCallNames aps"
    by blast
  define tcs where "tcs = mapIndex (\<lambda>tc index.
      \<lparr>fn_arguments = fn_arguments tc, fn_name = fn_name tc,
       call_id = functionsId (fn_name tc) index, call_type = ''function''\<rparr>) tcs'"
  have len: "length tcs' = length rs"
    using names assms(2) by (metis length_map)
  have len': "length tcs = length rs"
    using len by (simp add: tcs_def)
  have ids: "call_id (tcs ! k) = functionsId (tr_toolName (rs ! k)) k" if "k < length rs" for k
  proof -
    have "fn_name (tcs' ! k) = tr_toolName (rs ! k)"
      using that len names assms(2) by (metis nth_map)
    then show ?thesis
      using that len by (simp add: tcs_def mapIndex_nth)
  qed
  have tool: "turnMessages S (Tool rs) =
              mapIndex (\<lambda>r index. ToolMessage (S (tr_output r)) (tr_toolName r)
                 (call_id (tcs ! index))) rs"
    unfolding turnMessages_def
    by (simp, rule nth_equalityI) (simp_all add: mapIndex_nth ids)
  have asst: "turnMessages S (Assistant aps) =
      [AssistantMessage buf (if rs = [] then None else Some tcs)]"
    using run len by (auto simp add: turnMessages_def tcs_def)
  have callids: "map call_id tcs = mapIndex functionsId (toolCallNames aps)"
  proof (rule nth_equalityI)
    show "length (map call_id tcs) = length (mapIndex functionsId (toolCallNames aps))"
      using len' assms(2) by (metis length_map mapIndex_length)
  next
    fix k assume "k < length (map call_id tcs)"
    then have k: "k < length rs" using len' by simp
    then have "toolCallNames aps ! k = tr_toolName (rs ! k)"
      using assms(2) by (metis nth_map)
    moreover have "k < length (toolCallNames aps)"
      using k assms(2) by (metis length_map)
    ultimately show "map call_id tcs ! k = mapIndex functionsId (toolCallNames aps) ! k"
      using k len' ids by (simp add: mapIndex_nth)
  qed
  have nr: "\<not> list_ex raises (pre @ Assistant aps # mid @ Tool rs # post)"
    using assms(3) raises_Assistant_supported [OF assms(1)] by simp
  have "messages \<lparr>images = concat (map (turnImages S) (pre @ Assistant aps # mid @ Tool rs # post)),
          messages = concat (map (turnMessages S) (pre @ Assistant aps # mid @ Tool rs # post))\<rparr> =
             concat (map (turnMessages S) pre) @
             AssistantMessage buf (if rs = [] then None else Some tcs) #
             concat (map (turnMessages S) mid) @
             mapIndex (\<lambda>r index. ToolMessage (S (tr_output r)) (tr_toolName r)
                (call_id (tcs ! index))) rs @
             concat (map (turnMessages S) post)"
    by (simp add: asst tool)
  with convert_no_raise [OF nr, of S] len' callids show ?thesis by blast
qed

text \<open>
  Witness for C2: a user turn, an assistant turn with a text part and two tool calls,
  then their two results. The ids are \<^verbatim>\<open>functions.get:0\<close> and \<^verbatim>\<open>functions.put:1\<close> on both
  sides.
\<close>

theorem tool_call_id_symmetry_witness:
  "\<exists>cv buf tcs. convertToWorkersAIChatMessages JSON_stringify
      ([User [TextPart ''hi'']] @
       Assistant [TextPart ''a'', ToolCallPart ''c1'' ''get'' JNull, ToolCallPart ''c2'' ''put'' JNull] #
       [] @
       Tool [\<lparr>tr_toolCallId = ''c1'', tr_toolName = ''get'', tr_output = JNull\<rparr>,
             \<lparr>tr_toolCallId = ''c2'', tr_toolName = ''put'', tr_output = JNull\<rparr>] # []) = Inr cv \<and>
     messages cv =
       [UserMessage ''hi'', AssistantMessage buf (Some tcs),
        ToolMessage ''null'' ''get'' (call_id (tcs ! 0)),
        ToolMessage ''null'' ''put'' (call_id (tcs ! 1))] \<and>
     map call_id tcs = [''functions.get:0'', ''functions.put:1'']"
  using tool_call_id_symmetry [of "[TextPart ''a'', ToolCallPart ''c1'' ''get'' JNull, ToolCallPart ''c2'' ''put'' JNull]"
      "[\<lparr>tr_toolCallId = ''c1'', tr_toolName = ''get'', tr_output = JNull\<rparr>,
        \<lparr>tr_toolCallId = ''c2'', tr_toolName = ''put'', tr_output = JNull\<rparr>]"
      "[User [TextPart ''hi'']]" "[]" "[]" JSON_stringify]
  by (auto simp add: turnMessages_def mapIndex_def functionsId_def Number_toString.simps
      digit_def upt_rec)

subsection \<open>Where the converter throws\<close>

text \<open>
  Claim C3, as the code has it. The converter throws exactly when the prompt contains a
  turn whose role is unrecognized, or an assistant turn containing a part that is not a
  text, reasoning or tool-call part. The loop stops at the first such turn, so nothing is
  returned. A part of an unrecognized variant inside a user turn is not among the
  causes: the callback's \<^verbatim>\<open>return undefined\<close> renders it as the empty string.
\<close>

theorem converter_raises_iff:
  "(\<exists>e. convertToWorkersAIChatMessages S turns = Inl e) = list_ex raises turns"
  by (simp add: convertToWorkersAIChatMessages_def convertLoop_raises)

text \<open>
  Witness for C3: an assistant turn holding a file part, and a prompt with a turn of role
  \<^verbatim>\<open>developer\<close>, both throw; the first with the message of the assistant case's
  \<^verbatim>\<open>default\<close>.
\<close>

theorem converter_raises_iff_witness:
  "(\<exists>e. convertToWorkersAIChatMessages JSON_stringify
       [System ''s'', Assistant [TextPart ''a'', FilePart (Url ''u'') ''image/png'' None]] = Inl e) \<and>
   (\<exists>e. convertToWorkersAIChatMessages JSON_stringify [User [TextPart ''a''], OtherRole ''developer''] = Inl e) \<and>
   convertToWorkersAIChatMessages JSON_stringify [Assistant [FilePart (Url ''u'') ''image/png'' None]]
     = Inl (Error ''Unsupported part type: file'')"
  using converter_raises_iff [of JSON_stringify "[System ''s'', Assistant [TextPart ''a'', FilePart (Url ''u'') ''image/png'' None]]"]
    converter_raises_iff [of JSON_stringify "[User [TextPart ''a''], OtherRole ''developer'']"]
  by (simp add: convertToWorkersAIChatMessages_def)

text \<open>
  Counterexample to C3 as stated: a user turn whose first part has the unrecognized
  variant \<^verbatim>\<open>image\<close> is converted without error; the part contributes the empty string
  to the joined user message.
\<close>

theorem user_turn_unknown_part_no_error:
  "convertToWorkersAIChatMessages JSON_stringify [User [OtherPart ''image'', TextPart ''hi'']] =
     Inr \<lparr>images = [], messages = [UserMessage ''\<newline>hi'']\<rparr>"
  by (simp add: convertToWorkersAIChatMessages_def)

subsection \<open>The assistant message's content\<close>

text \<open>
  Claim C7, as the code has it. In an assistant turn made of text, reasoning and
  tool-call parts, every tool-call part replaces the running text buffer with the JSON
  of \<^verbatim>\<open>{name, parameters: input}\<close>; text and reasoning parts append to it. So the
  message's content is the JSON summary of the last tool-call part followed by the texts
  of the text and reasoning parts that come after it; nothing that came before the last
  tool-call part is left in it. This holds in every prompt whose other turns convert.
\<close>

theorem assistant_content_last_tool_call:
  assumes "list_all supportedAssistantPart xs" and "list_all textOrReasoning ys"
    and "\<not> list_ex raises (pre @ post)"
  shows "\<exists>cv tcs. convertToWorkersAIChatMessages S
                     (pre @ Assistant (xs @ ToolCallPart i n inp # ys) # post) = Inr cv \<and>
           messages cv =
             concat (map (turnMessages S) pre) @
             AssistantMessage
               (S (JObj [(''name'', JStr n), (''parameters'', inp)]) @ concat (map partText ys))
               (Some tcs) #
             concat (map (turnMessages S) post)"
proof -
  have sup: "list_all supportedAssistantPart (xs @ ToolCallPart i n inp # ys)"
  proof -
    have "list_all supportedAssistantPart ys"
      using assms(2) by (induction ys) (auto elim: textOrReasoning.elims)
    with assms(1) show ?thesis by simp
  qed
  have nr: "\<not> list_ex raises (pre @ Assistant (xs @ ToolCallPart i n inp # ys) # post)"
    using assms(3) raises_Assistant_supported [OF sup] by simp
  from turnMessages_Assistant [OF assms(1,2), of S i n inp] obtain tcs where
    tm: "turnMessages S (Assistant (xs @ ToolCallPart i n inp # ys)) =
           [AssistantMessage
              (S (JObj [(''name'', JStr n), (''parameters'', inp)]) @ concat (map partText ys))
              (Some tcs)]"
    by blast
  show ?thesis
    by (simp add: convert_no_raise [OF nr] tm)
qed

text \<open>
  Witness for C7: between a system and a user turn, an assistant turn of text, a first
  tool call, a second tool call, then a reasoning part. The content is the summary of
  the second call followed by the reasoning text.
\<close>

theorem assistant_content_last_tool_call_witness:
  "\<exists>cv tcs. convertToWorkersAIChatMessages JSON_stringify
     ([System ''be brief''] @
      Assistant ([TextPart ''before'', ToolCallPart ''call-1'' ''get'' JNull] @
        ToolCallPart ''call-2'' ''put'' (JNum 1) # [ReasoningPart ''after'']) #
      [User [TextPart ''go on'']]) = Inr cv \<and>
    messages cv =
      [SystemMessage ''be brief'',
       AssistantMessage
         (JSON_stringify (JObj [(''name'', JStr ''put''), (''parameters'', JNum 1)]) @ ''after'')
         (Some tcs),
       UserMessage ''go on'']"
  using assistant_content_last_tool_call [of "[TextPart ''before'', ToolCallPart ''call-1'' ''get'' JNull]"
      "[ReasoningPart ''after'']" "[System ''be brief'']" "[User [TextPart ''go on'']]"
      JSON_stringify "''call-2''" "''put''" "JNum 1"]
  by (simp add: turnMessages_def)

text \<open>
  Counterexample to C7 as stated: a tool-call part followed by the text part \<^verbatim>\<open>x\<close>. The
  content is the JSON summary with \<^verbatim>\<open>x\<close> appended, which is not the JSON summary.
\<close>

theorem assistant_content_trailing_text:
  "convertToWorkersAIChatMessages JSON_stringify
     [Assistant [ToolCallPart ''call-1'' ''get'' (JObj []), TextPart ''x'']] =
   Inr \<lparr>images = [],
        messages = [AssistantMessage (JSON_stringify (JObj [(''name'', JStr ''get''), (''parameters'', JObj [])]) @ ''x'')
          (Some [\<lparr>fn_arguments = ''{}'', fn_name = ''get'', call_id = ''functions.get:0'',
                  call_type = ''function''\<rparr>])]\<rparr> \<and>
   JSON_stringify (JObj [(''name'', JStr ''get''), (''parameters'', JObj [])]) @ ''x''
     \<noteq> JSON_stringify (JObj [(''name'', JStr ''get''), (''parameters'', JObj [])])"
  by (simp add: convertToWorkersAIChatMessages_def mapIndex_def functionsId_def
      Number_toString.simps digit_def)

subsection \<open>File parts that carry no bytes\<close>

text \<open>
  Claim C10. A user turn containing a file part whose data is not a byte array (a URL or
  a base64 string) is converted without error; the part contributes the empty string to
  the strings joined with newlines, and nothing to the images: the images are those of
  the parts before it and after it. In any prompt, the part could as well be an empty
  text part: the converter returns the same.
\<close>

theorem non_bytes_file_dropped:
  assumes "\<forall>b. d \<noteq> Bytes b"
  shows "convertToWorkersAIChatMessages S [User (xs @ [FilePart d mt po] @ ys)] =
           Inr \<lparr>images = concat (map (snd \<circ> userPart) xs) @ concat (map (snd \<circ> userPart) ys),
                messages = [UserMessage (js_join ''\<newline>''
                   (map (fst \<circ> userPart) xs @ [Some ''''] @ map (fst \<circ> userPart) ys))]\<rparr> \<and>
         convertToWorkersAIChatMessages S (pre @ User (xs @ [FilePart d mt po] @ ys) # post) =
         convertToWorkersAIChatMessages S (pre @ User (xs @ [TextPart ''''] @ ys) # post)"
proof -
  have u: "userPart (FilePart d mt po) = (Some '''', [])"
    using assms by (cases d) simp_all
  then have "convertTurn S (User (xs @ [FilePart d mt po] @ ys)) =
             convertTurn S (User (xs @ [TextPart ''''] @ ys))"
    by simp
  then have "convertLoop S (pre @ User (xs @ [FilePart d mt po] @ ys) # post) [] [] =
             convertLoop S (pre @ User (xs @ [TextPart ''''] @ ys) # post) [] []"
    by (rule convertLoop_cong_turn)
  with u show ?thesis
    by (simp add: convertToWorkersAIChatMessages_def)
qed

text \<open>
  Witness for C10: text, a file part with bytes, a file part with a URL, text. One image
  is extracted, and the message has an empty line for each of the two file parts.
\<close>

theorem non_bytes_file_dropped_witness:
  "convertToWorkersAIChatMessages JSON_stringify
     [User ([TextPart ''look'', FilePart (Bytes [1, 2]) ''image/png'' None] @
            [FilePart (Url ''https://example.com/cat.png'') ''image/png'' None] @ [TextPart ''at this''])] =
   Inr \<lparr>images = [\<lparr>image = [1, 2], mimeType = Some ''image/png'', providerOptions = None\<rparr>],
        messages = [UserMessage ''look\<newline>\<newline>\<newline>at this'']\<rparr>"
  using non_bytes_file_dropped [of "Url ''https://example.com/cat.png''" JSON_stringify
      "[TextPart ''look'', FilePart (Bytes [1, 2]) ''image/png'' None]" "''image/png''" None
      "[TextPart ''at this'']" "[]" "[]"]
  by simp

section \<open>Properties of the streaming mapper\<close>

subsection \<open>Open blocks and framing under append\<close>

lemma openTextIds_append: "openTextIds ts (es @ es') = openTextIds (openTextIds ts es) es'"
  by (induction ts es rule: openTextIds.induct) simp_all

lemma openReasoningIds_append:
  "openReasoningIds rs (es @ es') = openReasoningIds (openReasoningIds rs es) es'"
  by (induction rs es rule: openReasoningIds.induct) simp_all

lemma deltasFramed_append:
  "deltasFramed ts rs (es @ es') =
     (deltasFramed ts rs es \<and> deltasFramed (openTextIds ts es) (openReasoningIds rs es) es')"
  by (induction ts rs es rule: deltasFramed.induct) simp_all

subsection \<open>What the state operations do\<close>

lemma queue_enqueue [simp]: "queue (enqueue e st) = queue st @ [e]"
  and textId_enqueue [simp]: "textId (enqueue e st) = textId st"
  and reasoningId_enqueue [simp]: "reasoningId (enqueue e st) = reasoningId st"
  and generated_enqueue [simp]: "generated (enqueue e st) = generated st"
  by (simp_all add: enqueue_def)

lemma usage_enqueue [simp]: "usage (enqueue e st) = usage st"
  and partialToolCalls_enqueue [simp]: "partialToolCalls (enqueue e st) = partialToolCalls st"
  by (simp_all add: enqueue_def)

lemma openText_textId: "textId (openText gen st) \<noteq> None"
  by (simp add: openText_def truthy_def split: option.splits)

lemma openReasoning_reasoningId: "reasoningId (openReasoning gen st) \<noteq> None"
  by (simp add: openReasoning_def truthy_def split: option.splits)

lemma textDelta_fields:
  "queue (textDelta gen d st) =
     queue st @ (case textId st of
                   None \<Rightarrow> [TextStart (gen (generated st)), TextDelta (gen (generated st)) d]
                 | Some i \<Rightarrow> if i = '''' then [TextStart (gen (generated st)), TextDelta (gen (generated st)) d]
                             else [TextDelta i d])"
  "textId (textDelta gen d st) =
     (case textId st of None \<Rightarrow> Some (gen (generated st))
      | Some i \<Rightarrow> if i = '''' then Some (gen (generated st)) else Some i)"
  "reasoningId (textDelta gen d st) = reasoningId st"
  by (simp_all add: textDelta_def openText_def truthy_def Let_def split: option.splits)

lemma textDelta_mapper [simp]:
  "usage (textDelta gen d st) = usage st"
  "partialToolCalls (textDelta gen d st) = partialToolCalls st"
  by (simp_all add: textDelta_def openText_def truthy_def Let_def split: option.splits)

lemma reasoningDelta_fields:
  "queue (reasoningDelta gen d st) =
     queue st @ (case reasoningId st of
                   None \<Rightarrow> [ReasoningStart (gen (generated st)), ReasoningDelta (gen (generated st)) d]
                 | Some i \<Rightarrow> if i = '''' then [ReasoningStart (gen (generated st)), ReasoningDelta (gen (generated st)) d]
                             else [ReasoningDelta i d])"
  "reasoningId (reasoningDelta gen d st) =
     (case reasoningId st of None \<Rightarrow> Some (gen (generated st))
      | Some i \<Rightarrow> if i = '''' then Some (gen (generated st)) else Some i)"
  "textId (reasoningDelta gen d st) = textId st"
  by (simp_all add: reasoningDelta_def openReasoning_def truthy_def Let_def split: option.splits)

lemma reasoningDelta_mapper [simp]:
  "usage (reasoningDelta gen d st) = usage st"
  "partialToolCalls (reasoningDelta gen d st) = partialToolCalls st"
  by (simp_all add: reasoningDelta_def openReasoning_def truthy_def Let_def split: option.splits)

lemma foldl_enqueue_fields [simp]:
  "queue (foldl (\<lambda>s tc. enqueue (ToolCall tc) s) st tcs) = queue st @ map ToolCall tcs"
  "textId (foldl (\<lambda>s tc. enqueue (ToolCall tc) s) st tcs) = textId st"
  "reasoningId (foldl (\<lambda>s tc. enqueue (ToolCall tc) s) st tcs) = reasoningId st"
  by (induction tcs arbitrary: st) simp_all

lemma foldl_enqueue_usage [simp]:
  "usage (foldl (\<lambda>s tc. enqueue (ToolCall tc) s) st tcs) = usage st"
  by (induction tcs arbitrary: st) simp_all

lemma closeReasoning_fields:
  "queue (closeReasoning st) =
     queue st @ (case reasoningId st of None \<Rightarrow> []
                 | Some i \<Rightarrow> if i = '''' then [] else [ReasoningEnd i])"
  "textId (closeReasoning st) = textId st"
  by (simp_all add: closeReasoning_def split: option.splits)

lemma closeText_fields:
  "queue (closeText st) =
     queue st @ (case textId st of None \<Rightarrow> []
                 | Some i \<Rightarrow> if i = '''' then [] else [TextEnd i])"
  by (simp_all add: closeText_def split: option.splits)

lemma close_usage [simp]:
  "usage (closeReasoning st) = usage st" "usage (closeText st) = usage st"
  by (simp_all add: closeReasoning_def closeText_def split: option.splits)

lemma initialMapper_fields [simp]:
  "queue initialMapper = []" "textId initialMapper = None" "reasoningId initialMapper = None"
  "partialToolCalls initialMapper = []"
  "usage initialMapper = \<lparr>outputTokens = 0, inputTokens = 0, totalTokens = 0\<rparr>"
  by (simp_all add: initialMapper_def)

subsection \<open>The invariants are kept by every chunk\<close>

lemma framedState_textDelta: "framedState st \<Longrightarrow> framedState (textDelta gen d st)"
  by (auto simp add: framedState_def textDelta_fields deltasFramed_append openTextIds_append
      openReasoningIds_append idList_def split: option.splits)

lemma framedState_reasoningDelta: "framedState st \<Longrightarrow> framedState (reasoningDelta gen d st)"
  by (auto simp add: framedState_def reasoningDelta_fields deltasFramed_append openTextIds_append
      openReasoningIds_append idList_def split: option.splits)

lemma tightState_textDelta:
  "\<forall>k. gen k \<noteq> '''' \<Longrightarrow> tightState st \<Longrightarrow> tightState (textDelta gen d st)"
  by (auto simp add: tightState_def textDelta_fields openTextIds_append
      openReasoningIds_append idList_def split: option.splits)

lemma tightState_reasoningDelta:
  "\<forall>k. gen k \<noteq> '''' \<Longrightarrow> tightState st \<Longrightarrow> tightState (reasoningDelta gen d st)"
  by (auto simp add: tightState_def reasoningDelta_fields openTextIds_append
      openReasoningIds_append idList_def split: option.splits)

lemma framedState_update [simp]:
  "framedState (st\<lparr>usage := u\<rparr>) = framedState st"
  "framedState (st\<lparr>partialToolCalls := p\<rparr>) = framedState st"
  by (simp_all add: framedState_def)

lemma tightState_update [simp]:
  "tightState (st\<lparr>usage := u\<rparr>) = tightState st"
  "tightState (st\<lparr>partialToolCalls := p\<rparr>) = tightState st"
  by (simp_all add: tightState_def)

lemma framedState_onChunk: "framedState st \<Longrightarrow> framedState (onChunk gen c st)"
  by (simp add: onChunk_def Let_def framedState_textDelta framedState_reasoningDelta
      split: option.splits)

lemma tightState_onChunk:
  "\<forall>k. gen k \<noteq> '''' \<Longrightarrow> tightState st \<Longrightarrow> tightState (onChunk gen c st)"
  by (simp add: onChunk_def Let_def tightState_textDelta tightState_reasoningDelta
      split: option.splits)

lemma onlyBlocks_update [simp]:
  "onlyBlocks (st\<lparr>usage := u\<rparr>) = onlyBlocks st"
  "onlyBlocks (st\<lparr>partialToolCalls := p\<rparr>) = onlyBlocks st"
  by (simp_all add: onlyBlocks_def)

lemma onlyBlocks_textDelta: "onlyBlocks st \<Longrightarrow> onlyBlocks (textDelta gen d st)"
  by (simp add: onlyBlocks_def textDelta_fields split: option.splits)

lemma onlyBlocks_reasoningDelta: "onlyBlocks st \<Longrightarrow> onlyBlocks (reasoningDelta gen d st)"
  by (simp add: onlyBlocks_def reasoningDelta_fields split: option.splits)

lemma onlyBlocks_onChunk: "onlyBlocks st \<Longrightarrow> onlyBlocks (onChunk gen c st)"
  by (simp add: onChunk_def Let_def onlyBlocks_textDelta onlyBlocks_reasoningDelta
      split: option.splits)

lemma initialMapper_invariants:
  "framedState initialMapper" "tightState initialMapper" "onlyBlocks initialMapper"
  by (simp_all add: framedState_def tightState_def onlyBlocks_def idList_def)

lemma usage_onChunk:
  "usage (onChunk gen c st) =
     (case c_usage c of None \<Rightarrow> usage st | Some u \<Rightarrow> mapWorkersAIUsage (c_usage c))"
  by (simp add: onChunk_def Let_def split: option.splits)

lemma partialToolCalls_onChunk:
  "partialToolCalls (onChunk gen c st) =
     partialToolCalls st @ (case c_tool_calls c of None \<Rightarrow> [] | Some tcs \<Rightarrow> tcs)"
  by (simp add: onChunk_def Let_def split: option.splits)

subsection \<open>The loop\<close>

text \<open>
  When every payload parses, the loop ends without exception in the state reached by
  processing the chunks in order.
\<close>

lemma eventLoop_payloads:
  "map parse (payloads evs) = map Some cs \<Longrightarrow>
   eventLoop gen parse evs st = (foldl (\<lambda>s c. onChunk gen c s) st cs, None)"
proof (induction gen parse evs st arbitrary: cs rule: eventLoop.induct)
  case (1 gen parse st)
  then show ?case by simp
next
  case (2 gen parse evs st)
  then show ?case by simp
next
  case (3 gen parse d evs st)
  show ?case
  proof (cases "d = '''' \<or> d = ''[DONE]''")
    case True
    with 3 show ?thesis by auto
  next
    case False
    with "3.prems" obtain c cs' where cs: "cs = c # cs'" and c: "parse d = Some c"
      and rest: "map parse (payloads evs) = map Some cs'"
      by (cases cs) auto
    with False "3.IH"(2) [of c cs'] show ?thesis by simp
  qed
qed

lemma eventLoop_framed:
  "framedState st \<Longrightarrow> framedState (fst (eventLoop gen parse evs st))"
  by (induction gen parse evs st rule: eventLoop.induct)
     (auto simp add: framedState_onChunk split: option.splits)

lemma eventLoop_onlyBlocks:
  "onlyBlocks st \<Longrightarrow> onlyBlocks (fst (eventLoop gen parse evs st))"
  by (induction gen parse evs st rule: eventLoop.induct)
     (auto simp add: onlyBlocks_onChunk split: option.splits)

lemma foldl_onChunk_tight:
  "\<forall>k. gen k \<noteq> '''' \<Longrightarrow> tightState st \<Longrightarrow> tightState (foldl (\<lambda>s c. onChunk gen c s) st cs)"
  by (induction cs arbitrary: st) (simp_all add: tightState_onChunk)

lemma foldl_onChunk_onlyBlocks:
  "onlyBlocks st \<Longrightarrow> onlyBlocks (foldl (\<lambda>s c. onChunk gen c s) st cs)"
  by (induction cs arbitrary: st) (simp_all add: onlyBlocks_onChunk)

lemma foldl_onChunk_usage:
  "usage (foldl (\<lambda>s c. onChunk gen c s) st cs) =
     (case rev (filter (\<lambda>c. c_usage c \<noteq> None) cs) of
        [] \<Rightarrow> usage st
      | c # older \<Rightarrow> mapWorkersAIUsage (c_usage c))"
proof (induction cs arbitrary: st rule: rev_induct)
  case Nil
  then show ?case by simp
next
  case (snoc c cs)
  then show ?case by (simp add: usage_onChunk split: option.splits)
qed

lemma foldl_onChunk_partialToolCalls:
  "partialToolCalls (foldl (\<lambda>s c. onChunk gen c s) st cs) = partialToolCalls st @ fragmentsOf cs"
  by (induction cs arbitrary: st) (simp_all add: fragmentsOf_def partialToolCalls_onChunk)

subsection \<open>After the loop\<close>

lemma getMappedStream_closed:
  "eventLoop gen parse evs initialMapper = (st, None) \<Longrightarrow>
   getMappedStream gen parse ppc evs = (queue st @ closing ppc st, Closed)"
  by (simp add: getMappedStream_def closing_def Let_def closeReasoning_fields closeText_fields)

lemma getMappedStream_errored:
  "eventLoop gen parse evs initialMapper = (st, Some e) \<Longrightarrow>
   getMappedStream gen parse ppc evs = (queue st, Errored e)"
  by (simp add: getMappedStream_def)

lemma deltasFramed_tool_calls [simp]:
  "deltasFramed ts rs (map ToolCall tcs @ es) = deltasFramed ts rs es"
  by (induction tcs) simp_all

lemma filter_isFinish_tool_calls [simp]: "filter isFinish (map ToolCall tcs) = []"
  by (induction tcs) simp_all

lemma deltasFramed_closing: "deltasFramed ts rs (closing ppc st)"
  by (simp add: closing_def split: option.splits)

lemma filter_isFinish_blocks: "list_all startOrDelta es \<Longrightarrow> filter isFinish es = []"
proof (induction es)
  case Nil
  then show ?case by simp
next
  case (Cons e es)
  then show ?case by (cases e) simp_all
qed

lemma finishOnceLast_closing:
  "list_all startOrDelta es \<Longrightarrow> finishOnceLast (es @ closing ppc st)"
  by (simp add: finishOnceLast_def closing_def filter_isFinish_blocks split: option.splits)

text \<open>
  The mapper keeps the framing discipline for every input and every id generator: each
  delta carries the id of an open block of its kind, also in a stream that a malformed
  payload ends with an exception; and a stream that closes has exactly one finish
  event, its last.
\<close>

lemma mapped_stream_framed:
  "deltasFramed [] [] (fst (getMappedStream gen parse ppc evs))"
proof (cases "eventLoop gen parse evs initialMapper")
  case (Pair st r)
  have inv: "framedState st"
    using eventLoop_framed [OF initialMapper_invariants(1), of gen parse evs] Pair by simp
  show ?thesis
  proof (cases r)
    case None
    with Pair inv show ?thesis
      by (simp add: getMappedStream_closed framedState_def deltasFramed_append deltasFramed_closing)
  next
    case (Some e)
    with Pair inv show ?thesis
      by (simp add: getMappedStream_errored framedState_def)
  qed
qed

lemma mapped_stream_finish:
  assumes "snd (getMappedStream gen parse ppc evs) = Closed"
  shows "finishOnceLast (fst (getMappedStream gen parse ppc evs))"
proof (cases "eventLoop gen parse evs initialMapper")
  case (Pair st r)
  have blocks: "list_all startOrDelta (queue st)"
    using eventLoop_onlyBlocks [OF initialMapper_invariants(3), of gen parse evs] Pair
    by (simp add: onlyBlocks_def)
  show ?thesis
  proof (cases r)
    case None
    with Pair blocks show ?thesis
      by (simp add: getMappedStream_closed finishOnceLast_closing)
  next
    case (Some e)
    with Pair assms show ?thesis
      by (simp add: getMappedStream_errored)
  qed
qed

lemma exampleIds_nonempty: "\<forall>k. exampleIds k \<noteq> ''''"
  by (simp add: exampleIds_def)

lemma example_payloads:
  "map exampleParse (payloads exampleEvents) = map Some exampleChunks"
  by (simp add: exampleEvents_def exampleParse_def exampleChunks_def)

lemma example_mapped:
  "getMappedStream exampleIds exampleParse exampleToolCalls exampleEvents =
     ([ReasoningStart ''id-0'', ReasoningDelta ''id-0'' ''hm'',
       TextStart ''id-1'', TextDelta ''id-1'' ''Hi'', TextDelta ''id-1'' '' there'',
       ToolCall \<lparr>toolCallId = ''call-0'', toolName = ''get'',
                 input = JObj [(''index'', JNum 0), (''name'', JStr ''get'')]\<rparr>,
       ReasoningEnd ''id-0'', TextEnd ''id-1'',
       Finish ''stop'' \<lparr>outputTokens = 13, inputTokens = 11, totalTokens = 24\<rparr>], Closed)"
  by (simp add: getMappedStream_def eventLoop_payloads [OF example_payloads] exampleChunks_def
      initialMapper_def onChunk_def textDelta_def reasoningDelta_def openText_def
      openReasoning_def closeText_def closeReasoning_def enqueue_def truthy_def
      mapWorkersAIUsage_def exampleIds_def exampleToolCalls_def Number_toString.simps digit_def
      Let_def)

subsection \<open>End of input\<close>

text \<open>
  Claim C4. Let every payload of the input parse, to the chunks \<open>cs\<close>, and let
  \<^verbatim>\<open>generateId\<close> never return the empty string. Then the mapped stream closes, and it is:
  the events \<open>body\<close> emitted while reading, which are starts and deltas only; then the
  tool-call events that \<^verbatim>\<open>processPartialToolCalls\<close> makes of the accumulated fragments (none when
  there is no fragment); then a \<^verbatim>\<open>reasoning-end\<close> for the reasoning block still open after
  \<open>body\<close>, before a \<^verbatim>\<open>text-end\<close> for the text block still open after \<open>body\<close> (at most one of
  each); and last one \<^verbatim>\<open>finish\<close> event with reason \<^verbatim>\<open>stop\<close> and the last-seen usage.
\<close>

theorem end_of_input_order:
  assumes "map parse (payloads evs) = map Some cs" and "\<forall>k. gen k \<noteq> ''''"
  shows "\<exists>body. getMappedStream gen parse ppc evs =
           (body @
            (if fragmentsOf cs = [] then [] else map ToolCall (ppc (fragmentsOf cs))) @
            map ReasoningEnd (openReasoningIds [] body) @
            map TextEnd (openTextIds [] body) @
            [Finish ''stop'' (lastUsage cs)], Closed) \<and>
          list_all startOrDelta body \<and>
          length (openReasoningIds [] body) \<le> 1 \<and> length (openTextIds [] body) \<le> 1"
proof -
  define st where "st = foldl (\<lambda>s c. onChunk gen c s) initialMapper cs"
  have loop: "eventLoop gen parse evs initialMapper = (st, None)"
    using eventLoop_payloads [OF assms(1)] by (simp add: st_def)
  have tight: "tightState st"
    unfolding st_def by (rule foldl_onChunk_tight [OF assms(2) initialMapper_invariants(2)])
  have blocks: "list_all startOrDelta (queue st)"
    using foldl_onChunk_onlyBlocks [OF initialMapper_invariants(3), of gen cs]
    by (simp add: st_def onlyBlocks_def)
  have frags: "partialToolCalls st = fragmentsOf cs"
    by (simp add: st_def foldl_onChunk_partialToolCalls)
  have us: "usage st = lastUsage cs"
    by (simp add: st_def foldl_onChunk_usage lastUsage_def split: list.splits)
  have rend: "(case reasoningId st of None \<Rightarrow> [] | Some i \<Rightarrow> if i = '''' then [] else [ReasoningEnd i])
      = map ReasoningEnd (openReasoningIds [] (queue st))"
    using tight by (auto simp add: tightState_def idList_def split: option.splits)
  have tend: "(case textId st of None \<Rightarrow> [] | Some i \<Rightarrow> if i = '''' then [] else [TextEnd i])
      = map TextEnd (openTextIds [] (queue st))"
    using tight by (auto simp add: tightState_def idList_def split: option.splits)
  have len: "length (openReasoningIds [] (queue st)) \<le> 1" "length (openTextIds [] (queue st)) \<le> 1"
    using tight by (auto simp add: tightState_def idList_def split: option.splits)
  have "getMappedStream gen parse ppc evs =
           (queue st @
            (if fragmentsOf cs = [] then [] else map ToolCall (ppc (fragmentsOf cs))) @
            map ReasoningEnd (openReasoningIds [] (queue st)) @
            map TextEnd (openTextIds [] (queue st)) @
            [Finish ''stop'' (lastUsage cs)], Closed)"
    using getMappedStream_closed [OF loop, of ppc] rend tend
    by (simp add: closing_def frags us)
  with blocks len show ?thesis by blast
qed

text \<open>
  Witness for C4: the example events (a reasoning chunk, a text chunk with both text
  fields, a chunk with a tool-call fragment, the sentinel, and an event after it that is
  never read).
\<close>

theorem end_of_input_order_witness:
  "\<exists>body. getMappedStream exampleIds exampleParse exampleToolCalls exampleEvents =
      (body @
       [ToolCall \<lparr>toolCallId = ''call-0'', toolName = ''get'',
                  input = JObj [(''index'', JNum 0), (''name'', JStr ''get'')]\<rparr>] @
       map ReasoningEnd (openReasoningIds [] body) @
       map TextEnd (openTextIds [] body) @
       [Finish ''stop'' \<lparr>outputTokens = 13, inputTokens = 11, totalTokens = 24\<rparr>], Closed) \<and>
     list_all startOrDelta body \<and>
     length (openReasoningIds [] body) \<le> 1 \<and> length (openTextIds [] body) \<le> 1"
proof -
  have frag: "fragmentsOf exampleChunks = [JObj [(''index'', JNum 0), (''name'', JStr ''get'')]]"
    by (simp add: fragmentsOf_def exampleChunks_def)
  have us: "lastUsage exampleChunks = \<lparr>outputTokens = 13, inputTokens = 11, totalTokens = 24\<rparr>"
    by (simp add: lastUsage_def exampleChunks_def mapWorkersAIUsage_def)
  from end_of_input_order [OF example_payloads exampleIds_nonempty, of exampleToolCalls]
  show ?thesis
    by (simp add: frag us exampleToolCalls_def)
qed

subsection \<open>Usage: the last write wins\<close>

text \<open>
  Claim C5. Let every payload of the input parse, and let \<open>c\<close> be the last chunk that
  carries a usage field, \<open>u\<close> (any chunks \<open>pre\<close> before it, with or without usage; none of
  the chunks \<open>post\<close> after it has one). Then the stream closes with a finish event whose
  usage is \<open>inputTokens = prompt_tokens u\<close>, \<open>outputTokens = completion_tokens u\<close> and
  \<open>totalTokens\<close> their sum: the values of \<open>c\<close> alone, nothing accumulated from \<open>pre\<close>.
\<close>

theorem usage_last_write_wins:
  assumes "map parse (payloads evs) = map Some (pre @ c # post)"
    and "c_usage c = Some u"
    and "list_all (\<lambda>c. c_usage c = None) post"
  shows "\<exists>body. getMappedStream gen parse ppc evs =
           (body @ [Finish ''stop''
                      \<lparr>outputTokens = completion_tokens u, inputTokens = prompt_tokens u,
                       totalTokens = prompt_tokens u + completion_tokens u\<rparr>], Closed)"
proof -
  define st where "st = foldl (\<lambda>s c. onChunk gen c s) initialMapper (pre @ c # post)"
  have loop: "eventLoop gen parse evs initialMapper = (st, None)"
    using eventLoop_payloads [OF assms(1)] by (simp add: st_def)
  have "filter (\<lambda>c. c_usage c \<noteq> None) post = []"
    using assms(3) by (induction post) simp_all
  moreover have "usage st =
      (case rev (filter (\<lambda>c. c_usage c \<noteq> None) (pre @ c # post)) of
         [] \<Rightarrow> usage initialMapper
       | c # older \<Rightarrow> mapWorkersAIUsage (c_usage c))"
    unfolding st_def by (rule foldl_onChunk_usage)
  ultimately have "usage st = mapWorkersAIUsage (c_usage c)"
    using assms(2) by simp
  then have us: "usage st = \<lparr>outputTokens = completion_tokens u, inputTokens = prompt_tokens u,
                       totalTokens = prompt_tokens u + completion_tokens u\<rparr>"
    using assms(2) by (simp add: mapWorkersAIUsage_def)
  show ?thesis
    using getMappedStream_closed [OF loop, of ppc] us
    by (simp add: closing_def)
qed

text \<open>
  Witness for C5: the example has two chunks with usage, (5, 7) then (11, 13); the
  finish event has 11, 13 and 24, not 16, 20 and 36.
\<close>

theorem usage_last_write_wins_witness:
  "\<exists>body. getMappedStream exampleIds exampleParse exampleToolCalls exampleEvents =
      (body @ [Finish ''stop'' \<lparr>outputTokens = 13, inputTokens = 11, totalTokens = 24\<rparr>], Closed)"
proof -
  have split: "exampleChunks = [exampleChunks ! 0, exampleChunks ! 1] @ exampleChunks ! 2 # []"
    by (simp add: exampleChunks_def)
  have p: "map exampleParse (payloads exampleEvents) =
      map Some ([exampleChunks ! 0, exampleChunks ! 1] @ exampleChunks ! 2 # [])"
    using example_payloads split by simp
  have u: "c_usage (exampleChunks ! 2) = Some \<lparr>prompt_tokens = 11, completion_tokens = 13\<rparr>"
    by (simp add: exampleChunks_def)
  have n: "list_all (\<lambda>c. c_usage c = None) []"
    by simp
  from usage_last_write_wins [OF p u n, of exampleIds exampleToolCalls] show ?thesis
    by simp
qed

section \<open>Properties of the chat language model\<close>

subsection \<open>Arguments, guard and result of doGenerate\<close>

lemma getArgs_not_multipleImages: "getArgs ext self options \<noteq> Inl multipleImages"
  by (simp add: getArgs_def multipleImages_def Let_def split: prod.splits)

lemma getArgs_model: "getArgs ext self options = Inr (args, ws) \<Longrightarrow> a_model args = modelId self"
  by (auto simp add: getArgs_def Let_def split: prod.splits if_splits)

lemma image_guard: "notZeroNorOne imgs = (2 \<le> length imgs)"
  unfolding notZeroNorOne_def by arith

lemma doGenerate_many_images:
  assumes "convertToWorkersAIChatMessages (ext_stringify ext) (prompt options) = Inr cv"
    and "2 \<le> length (images cv)"
  shows "doGenerate ext self options =
           ([], Inl (case getArgs ext self options of Inl e \<Rightarrow> e | Inr a \<Rightarrow> multipleImages))"
proof (cases "getArgs ext self options")
  case (Inl e)
  then show ?thesis by (simp add: doGenerate_def)
next
  case (Inr a)
  with assms show ?thesis
    by (cases a) (simp add: doGenerate_def image_guard)
qed

lemma doGenerate_few_images:
  assumes "convertToWorkersAIChatMessages (ext_stringify ext) (prompt options) = Inr cv"
    and "length (images cv) \<le> 1"
  shows "snd (doGenerate ext self options) \<noteq> Inl multipleImages"
proof (cases "getArgs ext self options")
  case (Inl e)
  then have "e \<noteq> multipleImages"
    using getArgs_not_multipleImages [of ext self options] by auto
  with Inl show ?thesis by (simp add: doGenerate_def)
next
  case (Inr a)
  obtain args ws where a: "a = (args, ws)" by (cases a)
  have few: "\<not> 2 \<le> length (images cv)"
    using assms(2) by arith
  show ?thesis
  proof (cases "ext_run ext (a_model args) (buildRequest args cv False) (runOptions self None)")
    case (Inl reason)
    with Inr a assms(1) few show ?thesis
      by (simp add: doGenerate_def image_guard Let_def multipleImages_def)
  next
    case out: (Inr out)
    with Inr a assms(1) few show ?thesis
      by (cases out)
         (simp_all add: doGenerate_def image_guard Let_def multipleImages_def)
  qed
qed

lemma doGenerate_result:
  assumes "doGenerate ext self options = (reqs, Inr result)"
  shows "\<exists>args ws cv output.
           getArgs ext self options = Inr (args, ws) \<and>
           convertToWorkersAIChatMessages (ext_stringify ext) (prompt options) = Inr cv \<and>
           reqs = [buildRequest args cv False] \<and>
           ext_run ext (modelId self) (buildRequest args cv False) (runOptions self None) =
             Inr (DocumentOutput output) \<and>
           result = generateResult ext ws output"
proof (cases "getArgs ext self options")
  case (Inl e)
  with assms show ?thesis by (simp add: doGenerate_def)
next
  case (Inr a)
  obtain args ws where a: "a = (args, ws)" by (cases a)
  have m: "a_model args = modelId self"
    using Inr a by (simp add: getArgs_model)
  show ?thesis
  proof (cases "convertToWorkersAIChatMessages (ext_stringify ext) (prompt options)")
    case (Inl e)
    with assms Inr a show ?thesis by (simp add: doGenerate_def)
  next
    case cv: (Inr cv)
    show ?thesis
    proof (cases "2 \<le> length (images cv)")
      case True
      with assms Inr a cv show ?thesis
        by (simp add: doGenerate_def image_guard)
    next
      case False
      show ?thesis
      proof (cases "ext_run ext (modelId self) (buildRequest args cv False) (runOptions self None)")
        case (Inl reason)
        with assms Inr a cv m False show ?thesis
          by (simp add: doGenerate_def image_guard Let_def)
      next
        case out: (Inr out)
        with assms Inr a cv m False show ?thesis
          by (cases out)
             (simp_all add: doGenerate_def image_guard Let_def)
      qed
    qed
  qed
qed

subsection \<open>The example environment, evaluated\<close>

lemma example_fields:
  "ext_stringify (exampleExternals out) = JSON_stringify"
  "ext_generateId (exampleExternals out) = exampleIds"
  "ext_parseChunk (exampleExternals out) = exampleParse"
  "ext_processPartialToolCalls (exampleExternals out) = exampleToolCalls"
  "ext_run (exampleExternals out) m req opts = Inr out"
  "ext_lastMessageWasUser (exampleExternals out) [UserMessage c] = True"
  "ext_mapWorkersAIFinishReason (exampleExternals out) x = ''stop''"
  "prompt (exampleOptions turns ts) = turns"
  by (simp_all add: exampleExternals_def exampleOptions_def)

lemma example_convert:
  "convertToWorkersAIChatMessages JSON_stringify [User [TextPart ''hello'']] =
     Inr \<lparr>images = [], messages = [UserMessage ''hello'']\<rparr>"
  by (simp add: convertToWorkersAIChatMessages_def)

lemma example_getArgs:
  "getArgs (exampleExternals out) exampleModel (exampleOptions turns ts) =
     Inr (\<lparr>max_tokens = None, a_model = ''@cf/meta/llama-3.1-8b-instruct'', random_seed = None,
           safe_prompt = None, a_temperature = None, top_p = None, a_tools = ts,
           tool_choice = None, response_format = None\<rparr>, [])"
  by (simp add: getArgs_def exampleExternals_def exampleModel_def exampleOptions_def)

lemma example_doGenerate:
  "doGenerate (exampleExternals (DocumentOutput (exampleDocument reasoning))) exampleModel
     (exampleOptions [User [TextPart ''hello'']] ts) =
   ([\<lparr>r_max_tokens = None, r_messages = [UserMessage ''hello''], r_stream = False,
      r_temperature = None, r_tools = ts, r_top_p = None, r_image = None,
      r_response_format = None\<rparr>],
    Inr (generateResult (exampleExternals (DocumentOutput (exampleDocument reasoning))) []
           (exampleDocument reasoning)))"
  by (simp add: doGenerate_def example_getArgs example_fields example_convert buildRequest_def
      image_guard)

lemma example_generateResult:
  "generateResult (exampleExternals out) [] (exampleDocument reasoning) =
     \<lparr>g_finishReason = ''stop'',
      g_content =
        (if truthy reasoning then [ReasoningContent (the reasoning)] else []) @
        [TextContent ''Hi'',
         ToolCallContent \<lparr>toolCallId = ''call-1'', toolName = ''get'', input = JObj []\<rparr>],
      g_reasoningText = reasoning,
      g_usage = \<lparr>outputTokens = 2, inputTokens = 3, totalTokens = 5\<rparr>,
      g_warnings = []\<rparr>"
  by (simp add: generateResult_def exampleExternals_def exampleDocument_def Let_def
      processToolCalls_def mapWorkersAIUsage_def truthy_def split: option.splits)

subsection \<open>More than one image\<close>

text \<open>
  Claim C6. Let the prompt convert, to the messages and images \<open>cv\<close>. If there are two
  images or more, \<^verbatim>\<open>doGenerate\<close> and \<^verbatim>\<open>doStream\<close> both throw with no request issued to the
  backend: the error is "Multiple images are not yet supported as input", unless
  \<^verbatim>\<open>getArgs\<close> has thrown before on the response format. If there is one image or none,
  neither method throws that error.
\<close>

theorem multiple_images_rejected:
  assumes "convertToWorkersAIChatMessages (ext_stringify ext) (prompt options) = Inr cv"
  shows "(2 \<le> length (images cv) \<longrightarrow>
            doGenerate ext self options =
              ([], Inl (case getArgs ext self options of Inl e \<Rightarrow> e | Inr a \<Rightarrow> multipleImages)) \<and>
            doStream ext self options =
              ([], Inl (case getArgs ext self options of Inl e \<Rightarrow> e | Inr a \<Rightarrow> multipleImages))) \<and>
         (length (images cv) \<le> 1 \<longrightarrow>
            snd (doGenerate ext self options) \<noteq> Inl multipleImages \<and>
            snd (doStream ext self options) \<noteq> Inl multipleImages)"
proof (intro conjI impI)
  assume many: "2 \<le> length (images cv)"
  show g: "doGenerate ext self options =
      ([], Inl (case getArgs ext self options of Inl e \<Rightarrow> e | Inr a \<Rightarrow> multipleImages))"
    by (rule doGenerate_many_images [OF assms many])
  show "doStream ext self options =
      ([], Inl (case getArgs ext self options of Inl e \<Rightarrow> e | Inr a \<Rightarrow> multipleImages))"
  proof (cases "getArgs ext self options")
    case (Inl e)
    then show ?thesis by (simp add: doStream_def)
  next
    case (Inr a)
    with g have g': "doGenerate ext self options = ([], Inl multipleImages)" by simp
    from Inr assms many show ?thesis
      by (cases a) (simp add: doStream_def g' image_guard)
  qed
next
  assume few: "length (images cv) \<le> 1"
  show g: "snd (doGenerate ext self options) \<noteq> Inl multipleImages"
    by (rule doGenerate_few_images [OF assms few])
  show "snd (doStream ext self options) \<noteq> Inl multipleImages"
  proof (cases "getArgs ext self options")
    case (Inl e)
    then have "e \<noteq> multipleImages"
      using getArgs_not_multipleImages [of ext self options] by auto
    with Inl show ?thesis by (simp add: doStream_def)
  next
    case (Inr a)
    obtain args ws where a: "a = (args, ws)" by (cases a)
    have nf: "\<not> 2 \<le> length (images cv)"
      using few by arith
    obtain reqs r where dg: "doGenerate ext self options = (reqs, r)"
      by (cases "doGenerate ext self options")
    with g have r: "r \<noteq> Inl multipleImages" by simp
    show ?thesis
    proof (cases "(case a_tools args of None \<Rightarrow> False | Some ts \<Rightarrow> length ts \<noteq> 0) \<and>
                  ext_lastMessageWasUser ext (messages cv)")
      case True
      with Inr a assms dg r show ?thesis
        by (cases r) (simp_all add: doStream_def)
    next
      case False
      show ?thesis
      proof (cases "ext_run ext (a_model args) (buildRequest args cv True)
                      (runOptions self (safePrompt (m_settings self)))")
        case (Inl reason)
        with Inr a assms nf False show ?thesis
          by (auto simp add: doStream_def image_guard Let_def multipleImages_def)
      next
        case out: (Inr out)
        with Inr a assms nf False show ?thesis
          by (cases out)
             (auto simp add: doStream_def image_guard Let_def multipleImages_def)
      qed
    qed
  qed
qed

text \<open>
  Witness for C6: with two file parts carrying bytes both methods throw the error and
  issue no request; with one image (\<^verbatim>\<open>doGenerate\<close>) and with none (\<^verbatim>\<open>doStream\<close>) the error
  is not thrown.
\<close>

theorem multiple_images_rejected_witness:
  "doStream (exampleExternals (StreamOutput exampleEvents)) exampleModel
     (exampleOptions [User [FilePart (Bytes [1]) ''image/png'' None,
                            FilePart (Bytes [2]) ''image/png'' None]] None) =
     ([], Inl multipleImages) \<and>
   doGenerate (exampleExternals (StreamOutput exampleEvents)) exampleModel
     (exampleOptions [User [FilePart (Bytes [1]) ''image/png'' None,
                            FilePart (Bytes [2]) ''image/png'' None]] None) =
     ([], Inl multipleImages) \<and>
   snd (doGenerate (exampleExternals (DocumentOutput (exampleDocument None))) exampleModel
     (exampleOptions [User [FilePart (Bytes [1]) ''image/png'' None]] None))
     \<noteq> Inl multipleImages \<and>
   snd (doStream (exampleExternals (StreamOutput exampleEvents)) exampleModel
     (exampleOptions [User [TextPart ''hello'']] None))
     \<noteq> Inl multipleImages"
proof -
  have two: "convertToWorkersAIChatMessages
       (ext_stringify (exampleExternals (StreamOutput exampleEvents)))
       (prompt (exampleOptions [User [FilePart (Bytes [1]) ''image/png'' None,
                            FilePart (Bytes [2]) ''image/png'' None]] None)) =
     Inr \<lparr>images = [\<lparr>image = [1], mimeType = Some ''image/png'', providerOptions = None\<rparr>,
                    \<lparr>image = [2], mimeType = Some ''image/png'', providerOptions = None\<rparr>],
          messages = [UserMessage ''\<newline>'']\<rparr>"
    by (simp add: convertToWorkersAIChatMessages_def example_fields)
  have one: "convertToWorkersAIChatMessages
       (ext_stringify (exampleExternals (DocumentOutput (exampleDocument None))))
       (prompt (exampleOptions [User [FilePart (Bytes [1]) ''image/png'' None]] None)) =
     Inr \<lparr>images = [\<lparr>image = [1], mimeType = Some ''image/png'', providerOptions = None\<rparr>],
          messages = [UserMessage '''']\<rparr>"
    by (simp add: convertToWorkersAIChatMessages_def example_fields)
  have none: "convertToWorkersAIChatMessages
       (ext_stringify (exampleExternals (StreamOutput exampleEvents)))
       (prompt (exampleOptions [User [TextPart ''hello'']] None)) =
     Inr \<lparr>images = [], messages = [UserMessage ''hello'']\<rparr>"
    by (simp add: convertToWorkersAIChatMessages_def example_fields)
  from multiple_images_rejected [OF two, of exampleModel] multiple_images_rejected [OF one, of exampleModel]
    multiple_images_rejected [OF none, of exampleModel]
  show ?thesis
    by (simp add: example_getArgs)
qed

subsection \<open>The content of a non-streaming response\<close>

text \<open>
  Claim C8, as the code has it. When \<^verbatim>\<open>doGenerate\<close> returns a result, it has issued one
  request, the backend has answered it with a document, and the result's content is, in
  this order: a reasoning part if and only if the document's reasoning content is
  present and not the empty string; exactly one text part, whose text is the empty
  string when \<^verbatim>\<open>processText\<close> finds none; and one tool-call part for each entry of the
  document's tool-call list, in order, with the entry's name and its arguments parsed.
\<close>

theorem response_content_order:
  assumes "doGenerate ext self options = (reqs, Inr result)"
  shows "\<exists>req opts output.
           reqs = [req] \<and>
           ext_run ext (modelId self) req opts = Inr (DocumentOutput output) \<and>
           g_content result =
             (case d_reasoning_content output of
                None \<Rightarrow> []
              | Some t \<Rightarrow> if t = '''' then [] else [ReasoningContent t]) @
             [TextContent (case ext_processText ext output of None \<Rightarrow> '''' | Some t \<Rightarrow> t)] @
             map (\<lambda>tc. ToolCallContent
                        \<lparr>toolCallId = call_id tc, toolName = fn_name tc,
                         input = ext_parseArguments ext (fn_arguments tc)\<rparr>)
               (case d_tool_calls output of None \<Rightarrow> [] | Some tcs \<Rightarrow> tcs)"
proof -
  from doGenerate_result [OF assms] obtain args ws cv doc where
    reqs: "reqs = [buildRequest args cv False]" and
    run: "ext_run ext (modelId self) (buildRequest args cv False) (runOptions self None) =
            Inr (DocumentOutput doc)" and
    result: "result = generateResult ext ws doc"
    by blast
  have "g_content result =
             (case d_reasoning_content doc of
                None \<Rightarrow> []
              | Some t \<Rightarrow> if t = '''' then [] else [ReasoningContent t]) @
             [TextContent (case ext_processText ext doc of None \<Rightarrow> '''' | Some t \<Rightarrow> t)] @
             map (\<lambda>tc. ToolCallContent
                        \<lparr>toolCallId = call_id tc, toolName = fn_name tc,
                         input = ext_parseArguments ext (fn_arguments tc)\<rparr>)
               (case d_tool_calls doc of None \<Rightarrow> [] | Some tcs \<Rightarrow> tcs)"
    by (simp add: result generateResult_def Let_def truthy_def processToolCalls_def
        split: option.splits)
  with reqs run show ?thesis by blast
qed

text \<open>
  Witness for C8: a document with reasoning content \<^verbatim>\<open>thinking\<close>, the response \<^verbatim>\<open>Hi\<close> and
  one tool call gives a reasoning part, a text part and a tool-call part.
\<close>

theorem response_content_order_witness:
  "\<exists>req opts output.
     fst (doGenerate (exampleExternals (DocumentOutput (exampleDocument (Some ''thinking''))))
            exampleModel (exampleOptions [User [TextPart ''hello'']] None)) = [req] \<and>
     ext_run (exampleExternals (DocumentOutput (exampleDocument (Some ''thinking''))))
        (modelId exampleModel) req opts = Inr (DocumentOutput output) \<and>
     [ReasoningContent ''thinking'', TextContent ''Hi'',
      ToolCallContent \<lparr>toolCallId = ''call-1'', toolName = ''get'', input = JObj []\<rparr>] =
       (case d_reasoning_content output of
          None \<Rightarrow> []
        | Some t \<Rightarrow> if t = '''' then [] else [ReasoningContent t]) @
       [TextContent (case d_response output of None \<Rightarrow> '''' | Some t \<Rightarrow> t)] @
       map (\<lambda>tc. ToolCallContent
                  \<lparr>toolCallId = call_id tc, toolName = fn_name tc,
                   input = (if fn_arguments tc = ''{}'' then JObj [] else JNull)\<rparr>)
         (case d_tool_calls output of None \<Rightarrow> [] | Some tcs \<Rightarrow> tcs)"
proof -
  have r: "doGenerate (exampleExternals (DocumentOutput (exampleDocument (Some ''thinking''))))
            exampleModel (exampleOptions [User [TextPart ''hello'']] None) =
   ([\<lparr>r_max_tokens = None, r_messages = [UserMessage ''hello''], r_stream = False,
      r_temperature = None, r_tools = None, r_top_p = None, r_image = None,
      r_response_format = None\<rparr>],
    Inr \<lparr>g_finishReason = ''stop'',
         g_content =
           [ReasoningContent ''thinking'', TextContent ''Hi'',
            ToolCallContent \<lparr>toolCallId = ''call-1'', toolName = ''get'', input = JObj []\<rparr>],
         g_reasoningText = Some ''thinking'',
         g_usage = \<lparr>outputTokens = 2, inputTokens = 3, totalTokens = 5\<rparr>,
         g_warnings = []\<rparr>)"
    by (simp add: example_doGenerate example_generateResult truthy_def)
  from response_content_order [OF r] show ?thesis
    by (simp add: r) (simp add: exampleExternals_def)
qed

text \<open>
  Counterexample to C8 as stated: the document carries a reasoning-content field, the
  empty string, and the content has no reasoning part.
\<close>

theorem empty_reasoning_content_no_part:
  "d_reasoning_content (exampleDocument (Some '''')) = Some '''' \<and>
   doGenerate (exampleExternals (DocumentOutput (exampleDocument (Some '''')))) exampleModel
     (exampleOptions [User [TextPart ''hello'']] None) =
   ([\<lparr>r_max_tokens = None, r_messages = [UserMessage ''hello''], r_stream = False,
      r_temperature = None, r_tools = None, r_top_p = None, r_image = None,
      r_response_format = None\<rparr>],
    Inr \<lparr>g_finishReason = ''stop'',
         g_content =
           [TextContent ''Hi'',
            ToolCallContent \<lparr>toolCallId = ''call-1'', toolName = ''get'', input = JObj []\<rparr>],
         g_reasoningText = Some '''',
         g_usage = \<lparr>outputTokens = 2, inputTokens = 3, totalTokens = 5\<rparr>,
         g_warnings = []\<rparr>)"
  by (simp add: example_doGenerate example_generateResult truthy_def)
     (simp add: exampleDocument_def)

subsection \<open>The simulated stream\<close>

text \<open>
  Claim C1, at a failing input. With tools enabled and a user message last,
  \<^verbatim>\<open>doStream\<close> replays the result of \<^verbatim>\<open>doGenerate\<close>. For a document with reasoning content
  the replay emits \<^verbatim>\<open>reasoning-start\<close> with the id of the first call of \<^verbatim>\<open>generateId\<close> and
  the \<^verbatim>\<open>reasoning-delta\<close> with the id of a second call (\<^verbatim>\<open>id: generateId()\<close> where the text
  branch has \<^verbatim>\<open>id: textId\<close>): the delta carries the id of no reasoning block that was
  opened. The events are framed otherwise, with one finish event, the last.
\<close>

theorem simulated_stream_reasoning_delta_id:
  "snd (doStream (exampleExternals (DocumentOutput (exampleDocument (Some ''thinking''))))
          exampleModel
          (exampleOptions [User [TextPart ''hello'']] (Some [JObj [(''name'', JStr ''get'')]]))) =
     Inr ([StreamStart [], ReasoningStart ''id-0'', ReasoningDelta ''id-1'' ''thinking'',
           TextStart ''id-2'', TextDelta ''id-2'' ''Hi'',
           ToolCall \<lparr>toolCallId = ''call-1'', toolName = ''get'', input = JObj []\<rparr>,
           ReasoningEnd ''id-0'', TextEnd ''id-2'',
           Finish ''stop'' \<lparr>outputTokens = 2, inputTokens = 3, totalTokens = 5\<rparr>], Closed) \<and>
   \<not> deltasFramed [] []
        [StreamStart [], ReasoningStart ''id-0'', ReasoningDelta ''id-1'' ''thinking'',
         TextStart ''id-2'', TextDelta ''id-2'' ''Hi'',
         ToolCall \<lparr>toolCallId = ''call-1'', toolName = ''get'', input = JObj []\<rparr>,
         ReasoningEnd ''id-0'', TextEnd ''id-2'',
         Finish ''stop'' \<lparr>outputTokens = 2, inputTokens = 3, totalTokens = 5\<rparr>]"
proof -
  have sim: "simulatedStream
      (exampleExternals (DocumentOutput (exampleDocument (Some ''thinking'')))) []
      \<lparr>g_finishReason = ''stop'',
       g_content =
         [ReasoningContent ''thinking'', TextContent ''Hi'',
          ToolCallContent \<lparr>toolCallId = ''call-1'', toolName = ''get'', input = JObj []\<rparr>],
       g_reasoningText = Some ''thinking'',
       g_usage = \<lparr>outputTokens = 2, inputTokens = 3, totalTokens = 5\<rparr>,
       g_warnings = []\<rparr> =
     ([StreamStart [], ReasoningStart ''id-0'', ReasoningDelta ''id-1'' ''thinking'',
       TextStart ''id-2'', TextDelta ''id-2'' ''Hi'',
       ToolCall \<lparr>toolCallId = ''call-1'', toolName = ''get'', input = JObj []\<rparr>,
       ReasoningEnd ''id-0'', TextEnd ''id-2'',
       Finish ''stop'' \<lparr>outputTokens = 2, inputTokens = 3, totalTokens = 5\<rparr>], Closed)"
    by (simp add: simulatedStream_def example_fields exampleIds_def textDelta_def
        openText_def openReasoning_def closeText_def closeReasoning_def enqueue_def truthy_def
        Number_toString.simps digit_def Let_def)
  have "doStream (exampleExternals (DocumentOutput (exampleDocument (Some ''thinking''))))
          exampleModel
          (exampleOptions [User [TextPart ''hello'']] (Some [JObj [(''name'', JStr ''get'')]])) =
     ([\<lparr>r_max_tokens = None, r_messages = [UserMessage ''hello''], r_stream = False,
        r_temperature = None, r_tools = Some [JObj [(''name'', JStr ''get'')]], r_top_p = None,
        r_image = None, r_response_format = None\<rparr>],
      Inr ([StreamStart [], ReasoningStart ''id-0'', ReasoningDelta ''id-1'' ''thinking'',
           TextStart ''id-2'', TextDelta ''id-2'' ''Hi'',
           ToolCall \<lparr>toolCallId = ''call-1'', toolName = ''get'', input = JObj []\<rparr>,
           ReasoningEnd ''id-0'', TextEnd ''id-2'',
           Finish ''stop'' \<lparr>outputTokens = 2, inputTokens = 3, totalTokens = 5\<rparr>], Closed))"
    by (simp add: doStream_def example_getArgs example_fields example_convert
          example_doGenerate example_generateResult truthy_def sim)
  then show ?thesis by simp
qed

section \<open>Properties of the product recommendation workflow\<close>

lemma find_Some_member: "find P xs = Some y \<Longrightarrow> y \<in> set xs"
  by (induction xs) (auto split: if_splits)

lemma rankedProducts_member:
  assumes "x \<in> set (rankedProducts ids xs)"
  shows "x \<in> set xs"
proof -
  from assms have "x \<in> set (map the (filter (\<lambda>found. found \<noteq> None)
       (map (\<lambda>id. find (\<lambda>p. JNum (p_id p) = id) xs) ids)))"
    unfolding rankedProducts_def by (rule in_set_takeD)
  then obtain rid y where "find (\<lambda>p. JNum (p_id p) = rid) xs = Some y" and "x = y"
    by auto
  then show ?thesis by (simp add: find_Some_member)
qed

lemma rankedProducts_length: "length (rankedProducts ids xs) \<le> 3"
  by (simp add: rankedProducts_def)

lemma ge_two: "ge a (Num 2) \<Longrightarrow> \<exists>r. a = Num r \<and> 2 \<le> r"
  by (cases a) simp_all

lemma filterProducts_member:
  assumes "p \<in> set (filterProducts payload fetched)"
  shows "p \<in> set fetched \<and> (\<exists>r. rating p = Num r \<and> 2 \<le> r) \<and>
         (\<forall>m. minPrice payload = Some m \<longrightarrow> ge (price p) m) \<and>
         (\<forall>m. maxPrice payload = Some m \<longrightarrow> le (price p) m)"
  using assms by (auto simp add: filterProducts_def Let_def dest: ge_two)

lemma run_Inr:
  assumes r: "run env payload = Inr out"
  shows "\<exists>fetched ids. fetchProducts env (query payload) = Inr fetched \<and>
           topProducts out = rankedProducts ids (filterProducts payload fetched)"
proof (cases "fetchProducts env (query payload)")
  case (Inl reason)
  with r show ?thesis by (simp add: run_def)
next
  case f: (Inr fetched)
  show ?thesis
  proof (cases "rankWithAI env (query payload) (filterProducts payload fetched)")
    case (Inl reason)
    with r f show ?thesis by (simp add: run_def)
  next
    case a: (Inr response)
    define s where "s = (case response of Some s \<Rightarrow> if s \<noteq> '''' then s else ''[]'' | None \<Rightarrow> ''[]'')"
    show ?thesis
    proof (cases "parseJSON env s")
      case None
      with r f a show ?thesis by (simp add: run_def s_def)
    next
      case (Some v)
      with r f a have "\<exists>ids. v = JArr ids \<and>
          out = \<lparr>topProducts = rankedProducts ids (filterProducts payload fetched),
                 followUpQuestion =
                   ''Do you want me to highlight the pros and cons of these top 3 products?''\<rparr>"
        by (cases v) (simp_all add: run_def s_def)
      with f show ?thesis by auto
    qed
  qed
qed

lemma filtered_example:
  "filterProducts examplePayload exampleProducts =
     [exampleProducts ! 0, exampleProducts ! 2, exampleProducts ! 3]"
  by (simp add: filterProducts_def examplePayload_def exampleProducts_def)

lemma ranked_example:
  "rankedProducts [JNum 4, JNum 2, JNum 9, JNum 1, JNum 3]
      [exampleProducts ! 0, exampleProducts ! 2, exampleProducts ! 3] =
     [exampleProducts ! 3, exampleProducts ! 0, exampleProducts ! 2]"
  by (simp add: rankedProducts_def exampleProducts_def)

lemma run_example:
  "run exampleWorkflowEnv examplePayload =
     Inr \<lparr>topProducts = [exampleProducts ! 3, exampleProducts ! 0, exampleProducts ! 2],
          followUpQuestion =
            ''Do you want me to highlight the pros and cons of these top 3 products?''\<rparr>"
  by (simp add: run_def exampleWorkflowEnv_def filtered_example ranked_example)

text \<open>
  Claim C9. When a run of the workflow completes, with the value \<open>out\<close>, its
  \<open>topProducts\<close> are at most three; each of them is among the fetched products, has a
  rating that is a number at least 2, a price at least \<open>minPrice\<close> when a \<open>minPrice\<close> is
  given, and a price at most \<open>maxPrice\<close> when a \<open>maxPrice\<close> is given.
\<close>

theorem top_products_filtered:
  assumes "run env payload = Inr out"
  shows "length (topProducts out) \<le> 3 \<and>
         (\<exists>fetched. fetchProducts env (query payload) = Inr fetched \<and>
            (\<forall>p \<in> set (topProducts out).
               p \<in> set fetched \<and> (\<exists>r. rating p = Num r \<and> 2 \<le> r) \<and>
               (\<forall>m. minPrice payload = Some m \<longrightarrow> ge (price p) m) \<and>
               (\<forall>m. maxPrice payload = Some m \<longrightarrow> le (price p) m)))"
proof -
  from run_Inr [OF assms] obtain fetched ids where
    f: "fetchProducts env (query payload) = Inr fetched" and
    top: "topProducts out = rankedProducts ids (filterProducts payload fetched)"
    by blast
  have len: "length (topProducts out) \<le> 3"
    by (simp add: top rankedProducts_length)
  have props: "p \<in> set fetched \<and> (\<exists>r. rating p = Num r \<and> 2 \<le> r) \<and>
               (\<forall>m. minPrice payload = Some m \<longrightarrow> ge (price p) m) \<and>
               (\<forall>m. maxPrice payload = Some m \<longrightarrow> le (price p) m)"
    if "p \<in> set (topProducts out)" for p
  proof (rule filterProducts_member)
    show "p \<in> set (filterProducts payload fetched)"
      using that unfolding top by (rule rankedProducts_member)
  qed
  from len f props show ?thesis by blast
qed

text \<open>
  Witness for C9: of four products one has rating 1.5; the model ranks five ids, one of
  them unknown and one filtered out; the run returns the three others in ranked order.
\<close>

theorem top_products_filtered_witness:
  "run exampleWorkflowEnv examplePayload =
     Inr \<lparr>topProducts = [exampleProducts ! 3, exampleProducts ! 0, exampleProducts ! 2],
          followUpQuestion =
            ''Do you want me to highlight the pros and cons of these top 3 products?''\<rparr> \<and>
   length [exampleProducts ! 3, exampleProducts ! 0, exampleProducts ! 2] \<le> 3 \<and>
   (\<exists>r. rating (exampleProducts ! 3) = Num r \<and> 2 \<le> r) \<and>
   le (price (exampleProducts ! 2)) (Num 1000)"
proof -
  note r = run_example
  from top_products_filtered [OF r] have
    "\<forall>p \<in> set [exampleProducts ! 3, exampleProducts ! 0, exampleProducts ! 2].
       (\<exists>r. rating p = Num r \<and> 2 \<le> r) \<and>
       (\<forall>m. maxPrice examplePayload = Some m \<longrightarrow> le (price p) m)"
    by auto
  moreover have "maxPrice examplePayload = Some (Num 1000)"
    by (simp add: examplePayload_def)
  ultimately show ?thesis using r by simp
qed

end
